theory Spec2Isabelle
  imports Main "HOL-Library.Multiset" "HOL-Library.Log_Nat"
begin

section \<open>Data model (src/types.ts)\<close>

text \<open>
  A JavaScript string is modelled as a \<^typ>\<open>string\<close> holding its UTF-8 bytes. The
  program only compares category and grade strings for equality and looks for the ASCII
  digits of a semester label; both are the same on UTF-8 bytes as on UTF-16 code units.
  \<open>CourseCategory\<close> and \<open>Grade\<close> are unions of string literals that are not checked at
  run time (the courses come from JSON), so both fields are plain strings here.

  A JavaScript number is an IEEE 754 double. A finite double is modelled by the rational
  it denotes, and the operations round as in the section on double arithmetic; \<open>NaN\<close>,
  the infinities and the sign of zero are outside the model. \<open>credits\<close> is such a number:
  it may be fractional.

  \<open>isCurrent\<close> is an optional field: \<open>None\<close> is JavaScript's \<open>undefined\<close>.
\<close>

record course =
  course_id :: string
  semester :: string
  name :: string
  credits :: rat
  category :: string
  grade :: string
  isCurrent :: "bool option"

record requirements =
  req_total :: rat
  req_commonRequired :: rat
  req_deptRequired :: rat
  req_designatedElective :: rat
  req_generalElective :: rat
  req_generalEducation :: rat

definition ACCOUNTING_111_REQUIREMENTS :: requirements where
  "ACCOUNTING_111_REQUIREMENTS =
     \<lparr>req_total = 133, req_commonRequired = 9, req_deptRequired = 69,
      req_designatedElective = 21, req_generalElective = 19, req_generalEducation = 15\<rparr>"

text \<open>The seven category strings, as UTF-8 bytes.\<close>

definition cat_CommonRequired :: string where
  "cat_CommonRequired = [CHR 0xE5, CHR 0x85, CHR 0xB1, CHR 0xE5, CHR 0x90, CHR 0x8C,
     CHR 0xE5, CHR 0xBF, CHR 0x85, CHR 0xE4, CHR 0xBF, CHR 0xAE]"

definition cat_DeptRequired :: string where
  "cat_DeptRequired = [CHR 0xE7, CHR 0xB3, CHR 0xBB, CHR 0xE8, CHR 0xA8, CHR 0x82,
     CHR 0xE5, CHR 0xBF, CHR 0x85, CHR 0xE4, CHR 0xBF, CHR 0xAE]"

definition cat_DesignatedElective :: string where
  "cat_DesignatedElective = [CHR 0xE6, CHR 0x8C, CHR 0x87, CHR 0xE5, CHR 0xAE, CHR 0x9A,
     CHR 0xE9, CHR 0x81, CHR 0xB8, CHR 0xE4, CHR 0xBF, CHR 0xAE]"

definition cat_GeneralElective :: string where
  "cat_GeneralElective = [CHR 0xE4, CHR 0xB8, CHR 0x80, CHR 0xE8, CHR 0x88, CHR 0xAC,
     CHR 0xE9, CHR 0x81, CHR 0xB8, CHR 0xE4, CHR 0xBF, CHR 0xAE]"

definition cat_GeneralEducation :: string where
  "cat_GeneralEducation = [CHR 0xE9, CHR 0x80, CHR 0x9A, CHR 0xE8, CHR 0xAD, CHR 0x98]"

definition cat_PhysicalEducation :: string where
  "cat_PhysicalEducation = [CHR 0xE9, CHR 0xAB, CHR 0x94, CHR 0xE8, CHR 0x82, CHR 0xB2]"

definition cat_Other :: string where
  "cat_Other = [CHR 0xE5, CHR 0x85, CHR 0xB6, CHR 0xE4, CHR 0xBB, CHR 0x96]"

definition credit_bearing :: "string list" where
  "credit_bearing = [cat_CommonRequired, cat_DeptRequired, cat_DesignatedElective,
     cat_GeneralElective, cat_GeneralEducation]"

text \<open>\<open>if (course.isCurrent)\<close>: \<open>undefined\<close> and \<open>false\<close> are both falsy.\<close>

definition current :: "course \<Rightarrow> bool" where
  "current c = (isCurrent c = Some True)"

section \<open>Double arithmetic\<close>

text \<open>
  Every operation rounds its exact result to the nearest number with a 53-bit
  significand, a tie going to the even significand. The exponent is not bounded, so the
  model is IEEE arithmetic as long as no result overflows (from about \<open>1.8e308\<close>) or falls
  into the subnormal range (below about \<open>2.2e-308\<close>). The statements that depend on the
  arithmetic carry a hypothesis that keeps every value in that range.
\<close>

definition pow2 :: "int \<Rightarrow> rat" where
  "pow2 e = (if 0 \<le> e then 2 ^ nat e else 1 / 2 ^ nat (- e))"

text \<open>The binary exponent of a non-zero \<open>x\<close>: \<open>pow2 (binexp x) \<le> \<bar>x\<bar> < pow2 (binexp x + 1)\<close>.\<close>

definition binexp :: "rat \<Rightarrow> int" where
  "binexp x =
     (let (a, b) = quotient_of \<bar>x\<bar>; k = bitlen a - bitlen b
      in if pow2 k \<le> \<bar>x\<bar> then k else k - 1)"

definition round_even :: "rat \<Rightarrow> int" where
  "round_even q =
     (let f = \<lfloor>q\<rfloor>; r = q - of_int f
      in if r < 1 / 2 then f else if 1 / 2 < r then f + 1 else if even f then f else f + 1)"

definition round53 :: "rat \<Rightarrow> rat" where
  "round53 x =
     (if x = 0 then 0
      else let ulp = pow2 (binexp x - 52) in of_int (round_even (x / ulp)) * ulp)"

definition fadd :: "rat \<Rightarrow> rat \<Rightarrow> rat" where
  "fadd x y = round53 (x + y)"

definition fsub :: "rat \<Rightarrow> rat \<Rightarrow> rat" where
  "fsub x y = round53 (x - y)"

definition fmul :: "rat \<Rightarrow> rat \<Rightarrow> rat" where
  "fmul x y = round53 (x * y)"

text \<open>A division by zero gives \<open>NaN\<close> or an infinity in JavaScript: \<open>None\<close> here.\<close>

definition fdiv :: "rat \<Rightarrow> rat \<Rightarrow> rat option" where
  "fdiv x y = (if y = 0 then None else Some (round53 (x / y)))"

subsection \<open>\<open>Number.prototype.toFixed(2)\<close>\<close>

fun digits :: "nat \<Rightarrow> string" where
  "digits n =
     (if n < 10 then [char_of (48 + n)]
      else digits (n div 10) @ [char_of (48 + n mod 10)])"

declare digits.simps [simp del]

text \<open>
  The integer \<open>n\<close> for which \<open>n / 100\<close> is closest to the exact value of the double, the
  larger one of two; it is computed on the magnitude, the sign is put in front. (From
  \<open>10 ^ 21\<close> on \<open>toFixed\<close> switches to the exponent notation, which is not modelled.)
\<close>

definition hundredths :: "rat \<Rightarrow> nat" where
  "hundredths x = nat \<lfloor>\<bar>x\<bar> * 100 + 1 / 2\<rfloor>"

definition toFixed2 :: "rat \<Rightarrow> string" where
  "toFixed2 x =
     (let n = hundredths x;
          m = digits (n div 100) @ ''.'' @ digits (n mod 100 div 10) @ digits (n mod 10)
      in if x < 0 then ''-'' @ m else m)"

section \<open>Credit totals (the \<open>reduce\<close> of SummaryCard)\<close>

record bucket =
  earned :: rat
  projected :: rat

record accumulator =
  total :: bucket
  commonRequired :: bucket
  deptRequired :: bucket
  designatedElective :: bucket
  generalElective :: bucket
  generalEducation :: bucket

datatype bucket_key =
  KcommonRequired | KdeptRequired | KdesignatedElective | KgeneralElective | KgeneralEducation

definition initialAcc :: accumulator where
  "initialAcc =
     \<lparr>total = \<lparr>earned = 0, projected = 0\<rparr>,
      commonRequired = \<lparr>earned = 0, projected = 0\<rparr>,
      deptRequired = \<lparr>earned = 0, projected = 0\<rparr>,
      designatedElective = \<lparr>earned = 0, projected = 0\<rparr>,
      generalElective = \<lparr>earned = 0, projected = 0\<rparr>,
      generalEducation = \<lparr>earned = 0, projected = 0\<rparr>\<rparr>"

definition targetKey :: "string \<Rightarrow> bucket_key" where
  "targetKey cat =
     (if cat = cat_CommonRequired then KcommonRequired
      else if cat = cat_DeptRequired then KdeptRequired
      else if cat = cat_DesignatedElective then KdesignatedElective
      else if cat = cat_GeneralElective then KgeneralElective
      else if cat = cat_GeneralEducation then KgeneralEducation
      else KgeneralElective)"

text \<open>\<open>acc[targetKey]\<close>, read and written.\<close>

fun get_bucket :: "accumulator \<Rightarrow> bucket_key \<Rightarrow> bucket" where
  "get_bucket acc KcommonRequired = commonRequired acc"
| "get_bucket acc KdeptRequired = deptRequired acc"
| "get_bucket acc KdesignatedElective = designatedElective acc"
| "get_bucket acc KgeneralElective = generalElective acc"
| "get_bucket acc KgeneralEducation = generalEducation acc"

fun set_bucket :: "accumulator \<Rightarrow> bucket_key \<Rightarrow> bucket \<Rightarrow> accumulator" where
  "set_bucket acc KcommonRequired b = acc\<lparr>commonRequired := b\<rparr>"
| "set_bucket acc KdeptRequired b = acc\<lparr>deptRequired := b\<rparr>"
| "set_bucket acc KdesignatedElective b = acc\<lparr>designatedElective := b\<rparr>"
| "set_bucket acc KgeneralElective b = acc\<lparr>generalElective := b\<rparr>"
| "set_bucket acc KgeneralEducation b = acc\<lparr>generalEducation := b\<rparr>"

text \<open>\<open>b.projected += n\<close> and \<open>b.earned += n\<close>, additions of doubles.\<close>

definition add_projected :: "rat \<Rightarrow> bucket \<Rightarrow> bucket" where
  "add_projected n b = b\<lparr>projected := fadd (projected b) n\<rparr>"

definition add_earned :: "rat \<Rightarrow> bucket \<Rightarrow> bucket" where
  "add_earned n b = b\<lparr>earned := fadd (earned b) n\<rparr>"

text \<open>The callback of \<open>courses.reduce\<close>.\<close>

definition accumulate :: "accumulator \<Rightarrow> course \<Rightarrow> accumulator" where
  "accumulate acc c =
     (if category c = cat_PhysicalEducation then acc
      else
        let k = targetKey (category c) in
        if current c then
          (let acc1 = set_bucket acc k (add_projected (credits c) (get_bucket acc k))
           in acc1\<lparr>total := add_projected (credits c) (total acc1)\<rparr>)
        else
          (let acc1 = set_bucket acc k (add_earned (credits c) (get_bucket acc k))
           in acc1\<lparr>total := add_earned (credits c) (total acc1)\<rparr>))"

definition compute_totals :: "course list \<Rightarrow> accumulator" where
  "compute_totals courses = foldl accumulate initialAcc courses"

section \<open>GPA (the \<open>forEach\<close> of SummaryCard)\<close>

text \<open>
  \<open>GRADE_POINTS\<close> is an object indexed by the grade string; a missing key reads as
  \<open>undefined\<close> (\<open>None\<close>), and \<open>undefined >= 0\<close> is false.
\<close>

definition GRADE_POINTS :: "string \<Rightarrow> rat option" where
  "GRADE_POINTS = map_of
     [(''A+'', round53 (43 / 10)), (''A'', round53 4), (''A-'', round53 (37 / 10)),
      (''B+'', round53 (33 / 10)), (''B'', round53 3), (''B-'', round53 (27 / 10)),
      (''C+'', round53 (23 / 10)), (''C'', round53 2), (''C-'', round53 (17 / 10)),
      (''F'', 0), (''Pass'', - 1)]"

definition letter_grades :: "string list" where
  "letter_grades = [''A+'', ''A'', ''A-'', ''B+'', ''B'', ''B-'', ''C+'', ''C'', ''C-'', ''F'']"

record pools =
  earnedPoints :: rat
  earnedCredits :: rat
  projectedPoints :: rat
  projectedCredits :: rat

definition no_pools :: pools where
  "no_pools = \<lparr>earnedPoints = 0, earnedCredits = 0, projectedPoints = 0, projectedCredits = 0\<rparr>"

text \<open>The body of the loop; \<open>points\<close> is \<open>GRADE_POINTS[course.grade]\<close>.\<close>

definition gpa_step :: "pools \<Rightarrow> course \<Rightarrow> pools" where
  "gpa_step p c =
     (case GRADE_POINTS (grade c) of
        None \<Rightarrow> p
      | Some points \<Rightarrow>
          if 0 \<le> points \<and> 0 < credits c \<and> category c \<noteq> cat_PhysicalEducation then
            if current c then
              p\<lparr>projectedPoints := fadd (projectedPoints p) (fmul points (credits c)),
                projectedCredits := fadd (projectedCredits p) (credits c)\<rparr>
            else
              p\<lparr>earnedPoints := fadd (earnedPoints p) (fmul points (credits c)),
                earnedCredits := fadd (earnedCredits p) (credits c)\<rparr>
          else p)"

definition compute_pools :: "course list \<Rightarrow> pools" where
  "compute_pools courses = foldl gpa_step no_pools courses"

text \<open>
  \<open>credits > 0 ? (points / credits).toFixed(2) : "0.00"\<close>. The last branch is what
  \<open>toFixed\<close> returns for a value that is not finite.
\<close>

definition gpa_string :: "rat \<Rightarrow> rat \<Rightarrow> string" where
  "gpa_string points weight =
     (if 0 < weight then
        (case fdiv points weight of
           Some q \<Rightarrow> toFixed2 q
         | None \<Rightarrow> if points = 0 then ''NaN'' else if 0 < points then ''Infinity'' else ''-Infinity'')
      else ''0.00'')"

section \<open>The progress report\<close>

record progress_report =
  totals :: accumulator
  currentGPA :: string
  projectedGPA :: string

text \<open>
  What SummaryCard computes from its two properties before it renders them; the
  requirements are only rendered.
\<close>

definition computeProgress :: "course list \<Rightarrow> requirements \<Rightarrow> progress_report" where
  "computeProgress courses reqs =
     (let p = compute_pools courses;
          totalProjectedPoints = fadd (earnedPoints p) (projectedPoints p);
          totalProjectedCredits = fadd (earnedCredits p) (projectedCredits p)
      in \<lparr>totals = compute_totals courses,
          currentGPA = gpa_string (earnedPoints p) (earnedCredits p),
          projectedGPA = gpa_string totalProjectedPoints totalProjectedCredits\<rparr>)"

section \<open>Chronological ordering (CourseTable)\<close>

definition is_digit :: "char \<Rightarrow> bool" where
  "is_digit c = (48 \<le> (of_char c :: nat) \<and> (of_char c :: nat) \<le> 57)"

text \<open>
  \<open>sem.split(/[^0-9]/)\<close>: every character that is not a digit is a separator, and the
  empty string splits into one empty token.
\<close>

fun split_nondigit :: "string \<Rightarrow> string list" where
  "split_nondigit [] = [[]]"
| "split_nondigit (c # cs) =
     (if is_digit c then
        (case split_nondigit cs of [] \<Rightarrow> [[c]] | t # ts \<Rightarrow> (c # t) # ts)
      else [] # split_nondigit cs)"

text \<open>The number that a string of digits writes in decimal.\<close>

definition decimal :: "string \<Rightarrow> nat" where
  "decimal t = foldl (\<lambda>n c. 10 * n + (of_char c - 48)) 0 t"

text \<open>
  \<open>parseInt(s, 10)\<close> on a token of the split, which holds digits only: \<open>None\<close> is
  \<open>NaN\<close>, the result for the empty token; otherwise the double nearest to the number
  written (an infinity from 309 digits on, which is outside the model).
\<close>

definition parseInt10 :: "string \<Rightarrow> rat option" where
  "parseInt10 t = (if t = [] then None else Some (round53 (of_nat (decimal t))))"

text \<open>\<open>.map(s => parseInt(s, 10)).filter(n => !isNaN(n))\<close>\<close>

definition semester_numbers :: "string \<Rightarrow> rat list" where
  "semester_numbers sem = List.map_filter parseInt10 (split_nondigit sem)"

text \<open>\<open>split[i] || 0\<close>: an index out of range reads \<open>undefined\<close>.\<close>

definition or_zero :: "rat list \<Rightarrow> nat \<Rightarrow> rat" where
  "or_zero xs i = (if i < length xs then xs ! i else 0)"

definition year_of :: "string \<Rightarrow> rat" where
  "year_of sem = or_zero (semester_numbers sem) 0"

definition term_of :: "string \<Rightarrow> rat" where
  "term_of sem = or_zero (semester_numbers sem) 1"

definition compareSemesters :: "string \<Rightarrow> string \<Rightarrow> rat" where
  "compareSemesters semA semB =
     (let yearA = year_of semA; yearB = year_of semB in
      if yearA \<noteq> yearB then fsub yearA yearB
      else let termA = term_of semA; termB = term_of semB in fsub termA termB)"

text \<open>
  The callback that renderSection passes to \<open>sort\<close>. \<open>String.prototype.localeCompare\<close>
  is the collation of the host, a parameter \<open>lc\<close> here; it returns an integer.
\<close>

definition compareForDisplay :: "(string \<Rightarrow> string \<Rightarrow> int) \<Rightarrow> course \<Rightarrow> course \<Rightarrow> rat" where
  "compareForDisplay lc a b =
     (let semDiff = compareSemesters (semester a) (semester b) in
      if semDiff \<noteq> 0 then semDiff else of_int (lc (name a) (name b)))"

text \<open>
  \<open>Array.prototype.sort\<close> is stable: an element stays in front of the later elements
  that the callback does not put before it. An insertion sort does that.
\<close>

fun insert_by :: "('a \<Rightarrow> 'a \<Rightarrow> rat) \<Rightarrow> 'a \<Rightarrow> 'a list \<Rightarrow> 'a list" where
  "insert_by cmp x [] = [x]"
| "insert_by cmp x (y # ys) = (if cmp x y \<le> 0 then x # y # ys else y # insert_by cmp x ys)"

definition sort_by :: "('a \<Rightarrow> 'a \<Rightarrow> rat) \<Rightarrow> 'a list \<Rightarrow> 'a list" where
  "sort_by cmp xs = foldr (insert_by cmp) xs []"

definition sort_courses :: "(string \<Rightarrow> string \<Rightarrow> int) \<Rightarrow> course list \<Rightarrow> course list" where
  "sort_courses lc cs = sort_by (compareForDisplay lc) cs"

text \<open>A comparison of the bytes of two strings, to run the comparator on examples.\<close>

fun byte_compare :: "string \<Rightarrow> string \<Rightarrow> int" where
  "byte_compare [] [] = 0"
| "byte_compare [] (y # ys) = - 1"
| "byte_compare (x # xs) [] = 1"
| "byte_compare (x # xs) (y # ys) =
     (if (of_char x :: nat) < of_char y then - 1
      else if (of_char y :: nat) < of_char x then 1
      else byte_compare xs ys)"

section \<open>Editing the course list (App)\<close>

definition handleUpdateCourse :: "course \<Rightarrow> course list \<Rightarrow> course list" where
  "handleUpdateCourse updatedCourse prev =
     map (\<lambda>c. if course_id c = course_id updatedCourse then updatedCourse else c) prev"

section \<open>The range of the model\<close>

text \<open>
  The hypotheses under which the arithmetic above is the arithmetic of the program.

  Ordinary credits: at most \<open>2 ^ 20\<close> courses, every credit a double that is 0 or of a
  magnitude between \<open>2 ^ -30\<close> and \<open>2 ^ 30\<close>. Every sum, product and quotient of the
  aggregation is then 0 or far inside the normal range of the doubles, and every GPA is
  below \<open>10 ^ 21\<close>.
\<close>

definition is_double :: "rat \<Rightarrow> bool" where
  "is_double x = (round53 x = x)"

definition ordinary_credit :: "rat \<Rightarrow> bool" where
  "ordinary_credit x =
     (is_double x \<and> (x = 0 \<or> (pow2 (- 30) \<le> \<bar>x\<bar> \<and> \<bar>x\<bar> \<le> pow2 30)))"

definition ordinary_credits :: "course list \<Rightarrow> bool" where
  "ordinary_credits cs =
     (length cs \<le> 2 ^ 20 \<and> list_all (\<lambda>c. ordinary_credit (credits c)) cs)"

text \<open>
  Modest credits: every credit an integer, and the magnitudes of all credits together at
  most \<open>2 ^ 53\<close>. Every sum of credits is then an integer that the doubles hold exactly.
\<close>

definition integral :: "rat \<Rightarrow> bool" where
  "integral x = (of_int \<lfloor>x\<rfloor> = x)"

definition modest_credits :: "course list \<Rightarrow> bool" where
  "modest_credits cs =
     (list_all (\<lambda>c. integral (credits c)) cs
      \<and> sum_list (map (\<lambda>c. \<bar>credits c\<bar>) cs) \<le> 2 ^ 53)"

text \<open>
  The maximal runs of digits of a label, from left to right: what is left of the tokens
  of the split once the empty ones are gone.
\<close>

function digit_runs :: "string \<Rightarrow> string list" where
  "digit_runs s =
     (case dropWhile (\<lambda>c. \<not> is_digit c) s of
        [] \<Rightarrow> []
      | d # r \<Rightarrow> takeWhile is_digit (d # r) # digit_runs (dropWhile is_digit (d # r)))"
  by pat_completeness auto
termination
proof (relation "measure length")
  show "wf (measure length)" by simp
next
  fix s :: string and d r
  assume a: "dropWhile (\<lambda>c. \<not> is_digit c) s = d # r"
  then have "is_digit d" by (simp add: dropWhile_eq_Cons_conv)
  then have "length (dropWhile is_digit (d # r)) \<le> length r"
    by (simp add: length_dropWhile_le)
  moreover have "length (d # r) \<le> length s"
    using length_dropWhile_le [of "\<lambda>c. \<not> is_digit c" s] a by simp
  ultimately show "(dropWhile is_digit (d # r), s) \<in> measure length" by simp
qed

declare digit_runs.simps [simp del]

text \<open>
  A plain label: no run of digits is longer than 15 digits, so that the numbers of the
  label are below \<open>2 ^ 53\<close> and \<open>parseInt\<close> returns them exactly.
\<close>

definition plain_label :: "string \<Rightarrow> bool" where
  "plain_label sem = list_all (\<lambda>t. length t \<le> 15) (digit_runs sem)"

text \<open>The year and the term that a label writes: its first and its second number.\<close>

definition year_written :: "string \<Rightarrow> nat" where
  "year_written sem = (case digit_runs sem of [] \<Rightarrow> 0 | y # ts \<Rightarrow> decimal y)"

definition term_written :: "string \<Rightarrow> nat" where
  "term_written sem = (case digit_runs sem of [] \<Rightarrow> 0 | [y] \<Rightarrow> 0 | y # t # ts \<Rightarrow> decimal t)"

section \<open>Notions used in the statements\<close>

text \<open>The sums over the five credit-bearing buckets, as sums of rationals.\<close>

definition five_earned :: "accumulator \<Rightarrow> rat" where
  "five_earned acc =
     earned (commonRequired acc) + earned (deptRequired acc) + earned (designatedElective acc)
     + earned (generalElective acc) + earned (generalEducation acc)"

definition five_projected :: "accumulator \<Rightarrow> rat" where
  "five_projected acc =
     projected (commonRequired acc) + projected (deptRequired acc)
     + projected (designatedElective acc) + projected (generalElective acc)
     + projected (generalEducation acc)"

text \<open>
  The courses that enter a GPA pool: a letter grade, positive credits, not physical
  education; the earned pool takes those that are not current, the projected pool those
  that are. Such a course adds the product of its grade point and its credits.
\<close>

definition counts_for_gpa :: "course \<Rightarrow> bool" where
  "counts_for_gpa c =
     (grade c \<in> set letter_grades \<and> 0 < credits c \<and> category c \<noteq> cat_PhysicalEducation)"

definition earned_pool :: "course list \<Rightarrow> course list" where
  "earned_pool cs = filter (\<lambda>c. counts_for_gpa c \<and> isCurrent c \<noteq> Some True) cs"

definition projected_pool :: "course list \<Rightarrow> course list" where
  "projected_pool cs = filter (\<lambda>c. counts_for_gpa c \<and> isCurrent c = Some True) cs"

definition weighted :: "course \<Rightarrow> rat" where
  "weighted c =
     (case GRADE_POINTS (grade c) of
        None \<Rightarrow> 0
      | Some points \<Rightarrow> fmul points (credits c))"

text \<open>
  The value of a decimal numeral with exactly two decimals: digits, a point, two
  digits. Any other string has no value.
\<close>

definition two_decimals :: "string \<Rightarrow> rat option" where
  "two_decimals s =
     (let whole = takeWhile is_digit s in
      case dropWhile is_digit s of
        [p, a, b] \<Rightarrow>
          if p = CHR ''.'' \<and> whole \<noteq> [] \<and> is_digit a \<and> is_digit b
          then Some (of_nat (decimal whole) + of_nat (decimal [a, b]) / 100)
          else None
      | _ \<Rightarrow> None)"

text \<open>An occurrence of \<open>a\<close> stands in front of an occurrence of \<open>b\<close> in the list.\<close>

fun occurs_before :: "'a \<Rightarrow> 'a \<Rightarrow> 'a list \<Rightarrow> bool" where
  "occurs_before a b [] = False"
| "occurs_before a b (x # xs) = (x = a \<and> b \<in> set xs \<or> occurs_before a b xs)"

text \<open>
  The parse in the words of the specification: the label is split at its first run of
  characters that are not digits, into at most two tokens, the academic year and the term;
  a token counts as the number it starts with, and as 0 when it is missing or starts
  with no number.
\<close>

definition spec_tokens :: "string \<Rightarrow> string \<times> string" where
  "spec_tokens sem =
     (takeWhile is_digit sem, dropWhile (\<lambda>c. \<not> is_digit c) (dropWhile is_digit sem))"

definition spec_number :: "string \<Rightarrow> nat" where
  "spec_number t = (if takeWhile is_digit t = [] then 0 else decimal (takeWhile is_digit t))"

definition spec_year :: "string \<Rightarrow> nat" where
  "spec_year sem = spec_number (fst (spec_tokens sem))"

definition spec_term :: "string \<Rightarrow> nat" where
  "spec_term sem = spec_number (snd (spec_tokens sem))"

text \<open>Course lists and courses on which the statements are run.\<close>

definition three_courses :: "course list" where
  "three_courses =
     [\<lparr>course_id = ''1'', semester = ''111-1'', name = ''Accounting'', credits = 1,
        category = cat_DeptRequired, grade = ''A+'', isCurrent = Some False\<rparr>,
      \<lparr>course_id = ''2'', semester = ''111-1'', name = ''Economics'', credits = 1,
        category = cat_DeptRequired, grade = ''A'', isCurrent = Some False\<rparr>,
      \<lparr>course_id = ''3'', semester = ''111-2'', name = ''Statistics'', credits = 2,
        category = cat_DeptRequired, grade = ''A-'', isCurrent = Some False\<rparr>]"

definition three_courses_permuted :: "course list" where
  "three_courses_permuted = [three_courses ! 0, three_courses ! 2, three_courses ! 1]"

text \<open>Credits 0.1, 0.1 and 1.1, as the edit row of the table stores them.\<close>

definition fractional_courses :: "course list" where
  "fractional_courses =
     [\<lparr>course_id = ''11'', semester = ''111-1'', name = ''Workshop'', credits = round53 (1 / 10),
        category = cat_DeptRequired, grade = ''A'', isCurrent = Some False\<rparr>,
      \<lparr>course_id = ''12'', semester = ''111-1'', name = ''Reading'', credits = round53 (1 / 10),
        category = cat_CommonRequired, grade = ''A'', isCurrent = Some False\<rparr>,
      \<lparr>course_id = ''13'', semester = ''111-2'', name = ''Practice'', credits = round53 (11 / 10),
        category = cat_DeptRequired, grade = ''A'', isCurrent = Some False\<rparr>]"

definition pe_course :: course where
  "pe_course =
     \<lparr>course_id = ''4'', semester = ''112-1'', name = ''Swimming'', credits = 4,
      category = cat_PhysicalEducation, grade = ''A'', isCurrent = Some True\<rparr>"

definition pass_course :: course where
  "pass_course =
     \<lparr>course_id = ''5'', semester = ''112-1'', name = ''Service'', credits = 3,
      category = cat_GeneralEducation, grade = ''Pass'', isCurrent = None\<rparr>"

definition legacy_course :: course where
  "legacy_course =
     \<lparr>course_id = ''6'', semester = ''110-2'', name = ''Seminar'', credits = 2,
      category = ''Unknown'', grade = ''X'', isCurrent = None\<rparr>"

definition other_current_course :: course where
  "other_current_course =
     \<lparr>course_id = ''14'', semester = ''113-1'', name = ''Internship'', credits = 3,
      category = cat_Other, grade = ''A'', isCurrent = Some True\<rparr>"

definition edited_course :: course where
  "edited_course =
     \<lparr>course_id = ''2'', semester = ''111-1'', name = ''Economics'', credits = 3,
      category = cat_GeneralElective, grade = ''B+'', isCurrent = Some False\<rparr>"

definition dash_course :: course where
  "dash_course =
     \<lparr>course_id = ''7'', semester = ''111-1'', name = ''Calculus'', credits = 3,
      category = cat_CommonRequired, grade = ''A'', isCurrent = None\<rparr>"

definition slash_course :: course where
  "slash_course =
     \<lparr>course_id = ''8'', semester = ''111/1'', name = ''Calculus'', credits = 3,
      category = cat_CommonRequired, grade = ''B'', isCurrent = None\<rparr>"

definition prefixed_second_term :: course where
  "prefixed_second_term =
     \<lparr>course_id = ''9'', semester = ''Y111-2'', name = ''Algebra'', credits = 3,
      category = cat_CommonRequired, grade = ''A'', isCurrent = None\<rparr>"

definition prefixed_first_term :: course where
  "prefixed_first_term =
     \<lparr>course_id = ''10'', semester = ''Y111-1'', name = ''Calculus'', credits = 3,
      category = cat_CommonRequired, grade = ''A'', isCurrent = None\<rparr>"

section \<open>The double arithmetic\<close>

text \<open>
  The exponent that \<open>binexp\<close> computes brackets its argument, \<open>round53\<close> is within
  half a unit in the last place and keeps the sign, and it is exact on the integers up
  to \<open>2 ^ 53\<close>.
\<close>

lemma pow2_powi: "pow2 e = power_int 2 e"
  by (simp add: pow2_def power_int_def power_one_over inverse_eq_divide)

lemma pow2_pos: "0 < pow2 e"
  by (simp add: pow2_def)

lemma pow2_add: "pow2 (i + j) = pow2 i * pow2 j"
  by (simp add: pow2_powi power_int_add)

lemma pow2_diff: "pow2 (i - j) = pow2 i / pow2 j"
  by (simp add: pow2_powi power_int_diff)

lemma pow2_mono: "i \<le> j \<Longrightarrow> pow2 i \<le> pow2 j"
  by (simp add: pow2_powi power_int_increasing)

lemma pow2_strict_mono: "i < j \<Longrightarrow> pow2 i < pow2 j"
  by (simp add: pow2_powi power_int_strict_increasing)

lemma pow2_less_iff: "pow2 i < pow2 j \<longleftrightarrow> i < j"
  using pow2_mono [of j i] pow2_strict_mono [of i j] by (auto simp: not_less [symmetric])

lemma round_even_close: "\<bar>of_int (round_even q) - q\<bar> \<le> (1 / 2 :: rat)"
proof -
  define f where "f = \<lfloor>q\<rfloor>"
  have lo: "of_int f \<le> q" and hi: "q < of_int f + 1"
    unfolding f_def by linarith+
  consider "q - of_int f < 1 / 2" | "1 / 2 < q - of_int f" | "q - of_int f = 1 / 2"
    by linarith
  then show ?thesis
  proof cases
    case 1
    then have "round_even q = f" by (simp add: round_even_def f_def)
    then show ?thesis using lo 1 by (simp add: abs_le_iff)
  next
    case 2
    then have "round_even q = f + 1" by (simp add: round_even_def f_def)
    then show ?thesis using hi 2 by (simp add: abs_le_iff)
  next
    case 3
    then have "round_even q = f \<or> round_even q = f + 1"
      by (simp add: round_even_def f_def Let_def)
    then show ?thesis using 3 by (auto simp: abs_le_iff)
  qed
qed

lemma round_even_int: "round_even (of_int m) = m"
  by (simp add: round_even_def)


lemma binexp_bounds:
  assumes "x \<noteq> 0"
  shows "pow2 (binexp x) \<le> \<bar>x\<bar> \<and> \<bar>x\<bar> < pow2 (binexp x + 1)"
proof -
  obtain a b where q: "quotient_of \<bar>x\<bar> = (a, b)" by (cases "quotient_of \<bar>x\<bar>")
  have b: "0 < b" using q by (rule quotient_of_denom_pos)
  have x: "\<bar>x\<bar> = of_int a / of_int b" using q by (rule quotient_of_div)
  have a: "0 < a"
  proof -
    have "0 < of_int a / (of_int b :: rat)" using assms x by simp
    then show ?thesis using b by (simp add: zero_less_divide_iff)
  qed
  define k where "k = bitlen a - bitlen b"
  have la: "0 < bitlen a" and lb: "0 < bitlen b"
    using a b bitlen_nonneg [of a] bitlen_nonneg [of b] bitlen_eq_zero_iff [of a]
      bitlen_eq_zero_iff [of b]
    by linarith+
  have int_pow: "of_int ((2::int) ^ n) = (2::rat) ^ n" for n by simp
  have a_lo: "pow2 (bitlen a - 1) \<le> of_int a"
  proof -
    have "of_int ((2::int) ^ nat (bitlen a - 1)) \<le> (of_int a :: rat)"
      using bitlen_bounds [OF a] by (simp only: of_int_le_iff)
    then show ?thesis using la by (simp only: int_pow) (simp add: pow2_def)
  qed
  have a_hi: "of_int a < pow2 (bitlen a)"
  proof -
    have "(of_int a :: rat) < of_int ((2::int) ^ nat (bitlen a))"
      using bitlen_bounds [OF a] by (simp only: of_int_less_iff)
    then show ?thesis using la by (simp only: int_pow) (simp add: pow2_def)
  qed
  have b_lo: "pow2 (bitlen b - 1) \<le> of_int b"
  proof -
    have "of_int ((2::int) ^ nat (bitlen b - 1)) \<le> (of_int b :: rat)"
      using bitlen_bounds [OF b] by (simp only: of_int_le_iff)
    then show ?thesis using lb by (simp only: int_pow) (simp add: pow2_def)
  qed
  have b_hi: "of_int b < pow2 (bitlen b)"
  proof -
    have "(of_int b :: rat) < of_int ((2::int) ^ nat (bitlen b))"
      using bitlen_bounds [OF b] by (simp only: of_int_less_iff)
    then show ?thesis using lb by (simp only: int_pow) (simp add: pow2_def)
  qed
  have upper: "\<bar>x\<bar> < pow2 (k + 1)"
  proof -
    have "of_int a / of_int b < pow2 (bitlen a) / pow2 (bitlen b - 1)"
      using a a_hi b_lo pow2_pos [of "bitlen b - 1"] by (intro frac_less) simp_all
    also have "\<dots> = pow2 (k + 1)"
      by (simp add: k_def pow2_diff [symmetric] algebra_simps)
    finally show ?thesis by (simp only: x)
  qed
  have lower: "pow2 (k - 1) \<le> \<bar>x\<bar>"
  proof -
    have "pow2 (bitlen a - 1) / pow2 (bitlen b) \<le> of_int a / of_int b"
      using a b a_lo b_hi by (intro frac_le) simp_all
    moreover have "pow2 (bitlen a - 1) / pow2 (bitlen b) = pow2 (k - 1)"
      by (simp add: k_def pow2_diff [symmetric] algebra_simps)
    ultimately show ?thesis by (simp only: x)
  qed
  have e: "binexp x = (if pow2 k \<le> \<bar>x\<bar> then k else k - 1)"
    by (simp add: binexp_def q k_def Let_def)
  show ?thesis
    using upper lower by (auto simp: e)
qed


lemma round53_error:
  assumes "x \<noteq> 0"
  shows "\<bar>round53 x - x\<bar> \<le> pow2 (binexp x - 53)"
proof -
  define u where "u = pow2 (binexp x - 52)"
  have u: "0 < u" by (simp add: u_def pow2_pos)
  have r: "round53 x = of_int (round_even (x / u)) * u"
    using assms by (simp add: round53_def u_def Let_def)
  have "round53 x - x = (of_int (round_even (x / u)) - x / u) * u"
    using u by (simp add: r field_simps)
  then have "\<bar>round53 x - x\<bar> = \<bar>of_int (round_even (x / u)) - x / u\<bar> * u"
    using u by (simp add: abs_mult)
  also have "\<dots> \<le> 1 / 2 * u"
    using round_even_close [of "x / u"] u by (intro mult_right_mono) simp_all
  also have "\<dots> = pow2 (binexp x - 53)"
  proof -
    have "pow2 (binexp x - 52) = pow2 (binexp x - 53) * pow2 1"
      by (simp add: pow2_add [symmetric])
    then show ?thesis by (simp add: u_def pow2_def)
  qed
  finally show ?thesis .
qed

lemma round53_int_exact:
  assumes "\<bar>n\<bar> \<le> 2 ^ 53"
  shows "round53 (of_int n) = of_int n"
proof (cases "n = 0")
  case True
  then show ?thesis by (simp add: round53_def)
next
  case False
  define x :: rat where "x = of_int n"
  define e where "e = binexp x"
  have x0: "x \<noteq> 0" using False by (simp add: x_def)
  have bounds: "pow2 e \<le> \<bar>x\<bar>" "\<bar>x\<bar> < pow2 (e + 1)"
    using binexp_bounds [OF x0] by (simp_all add: e_def)
  have "\<bar>x\<bar> \<le> pow2 53"
    using assms by (simp add: x_def pow2_def flip: of_int_abs)
  then have "pow2 e \<le> pow2 53" using bounds(1) by linarith
  then have e_hi: "e \<le> 53"
    using pow2_less_iff [of 53 e] by (simp add: not_less [symmetric])
  have "1 \<le> \<bar>x\<bar>"
    using False by (simp add: x_def flip: of_int_abs) 
  then have "pow2 0 < pow2 (e + 1)" using bounds(2) by (simp add: pow2_def)
  then have e_lo: "0 \<le> e" by (simp add: pow2_less_iff)
  have r: "round53 x = of_int (round_even (x / pow2 (e - 52))) * pow2 (e - 52)"
    using x0 by (simp add: round53_def e_def Let_def)
  show ?thesis
  proof (cases "e \<le> 52")
    case True
    define k where "k = nat (52 - e)"
    have u: "pow2 (e - 52) = 1 / 2 ^ k"
      using True by (cases "e = 52") (simp_all add: pow2_def k_def)
    have "x / pow2 (e - 52) = of_int (n * 2 ^ k)"
      by (simp add: u x_def)
    then have "round_even (x / pow2 (e - 52)) = n * 2 ^ k"
      by (simp only: round_even_int)
    then have "round53 x = of_int (n * 2 ^ k) * (1 / 2 ^ k)"
      by (simp only: r u)
    then show ?thesis by (simp add: x_def)
  next
    case False
    then have e: "e = 53" using e_hi by simp
    have "pow2 53 \<le> \<bar>x\<bar>" using bounds(1) by (simp only: e)
    then have "\<bar>x\<bar> = 2 ^ 53"
      using \<open>\<bar>x\<bar> \<le> pow2 53\<close> by (simp add: pow2_def)
    then have "\<bar>n\<bar> = 2 ^ 53"
      by (simp add: x_def flip: of_int_abs)
    then have "even \<bar>n\<bar>" by simp
    then have "even n" by simp
    then have n: "n = 2 * (n div 2)" by simp
    have u: "pow2 (e - 52) = 2" by (simp add: e pow2_def)
    have "x / pow2 (e - 52) = of_int (n div 2)"
      unfolding u x_def by (subst n) simp
    then have "round_even (x / pow2 (e - 52)) = n div 2"
      by (simp only: round_even_int)
    then have "round53 x = of_int (n div 2) * 2"
      by (simp only: r u)
    also have "\<dots> = of_int (2 * (n div 2))" by simp
    finally show ?thesis by (simp only: x_def n [symmetric])
  qed
qed

lemma fadd_int_exact:
  "\<bar>a + b\<bar> \<le> 2 ^ 53 \<Longrightarrow> fadd (of_int a) (of_int b) = of_int (a + b)"
  using round53_int_exact [of "a + b"] by (simp add: fadd_def)

lemma round_even_nonneg:
  assumes "0 \<le> q"
  shows "0 \<le> round_even q"
proof -
  have "0 \<le> \<lfloor>q\<rfloor>" using assms by simp
  then show ?thesis by (simp add: round_even_def Let_def)
qed

lemma round53_nonneg:
  assumes "0 \<le> x"
  shows "0 \<le> round53 x"
proof (cases "x = 0")
  case True
  then show ?thesis by (simp add: round53_def)
next
  case False
  define u where "u = pow2 (binexp x - 52)"
  have u: "0 < u" by (simp add: u_def pow2_pos)
  have "0 \<le> x / u" using assms u by simp
  then have "0 \<le> round_even (x / u)" by (rule round_even_nonneg)
  then have "0 \<le> of_int (round_even (x / u)) * u" using u by simp
  moreover have "round53 x = of_int (round_even (x / u)) * u"
    using False by (simp add: round53_def u_def Let_def)
  ultimately show ?thesis by simp
qed

lemma fadd_nonneg: "0 \<le> x \<Longrightarrow> 0 \<le> y \<Longrightarrow> 0 \<le> fadd x y"
  by (simp add: fadd_def round53_nonneg)

lemma fmul_nonneg: "0 \<le> x \<Longrightarrow> 0 \<le> y \<Longrightarrow> 0 \<le> fmul x y"
  by (simp add: fmul_def round53_nonneg)

lemma integral_of_int: "integral (of_int n)"
  by (simp add: integral_def)

lemma integral_add:
  assumes "integral x" "integral y"
  shows "integral (x + y)"
proof -
  have x: "of_int \<lfloor>x\<rfloor> = x" and y: "of_int \<lfloor>y\<rfloor> = y"
    using assms unfolding integral_def .
  have sum: "of_int (\<lfloor>x\<rfloor> + \<lfloor>y\<rfloor>) = x + y"
    by (simp only: of_int_add x y)
  have "integral (of_int (\<lfloor>x\<rfloor> + \<lfloor>y\<rfloor>) :: rat)"
    by (rule integral_of_int)
  then show ?thesis by (simp only: sum)
qed

lemma fadd_exact:
  assumes "integral x" "integral y" "\<bar>x + y\<bar> \<le> 2 ^ 53"
  shows "fadd x y = x + y"
proof -
  define a where "a = \<lfloor>x\<rfloor>"
  define b where "b = \<lfloor>y\<rfloor>"
  have x: "of_int a = x" and y: "of_int b = y"
    using assms(1,2) unfolding integral_def a_def b_def .
  have sum: "of_int (a + b) = x + y"
    by (simp only: of_int_add x y)
  have "\<bar>of_int (a + b) :: rat\<bar> \<le> 2 ^ 53"
    using assms(3) by (simp only: sum)
  then have "of_int \<bar>a + b\<bar> \<le> (of_int (2 ^ 53) :: rat)"
    by simp
  then have "\<bar>a + b\<bar> \<le> 2 ^ 53"
    by (simp only: of_int_le_iff)
  then have "fadd (of_int a) (of_int b) = of_int (a + b)"
    by (rule fadd_int_exact)
  then show ?thesis by (simp only: x y sum)
qed

lemma round53_nat_exact:
  assumes "n \<le> 2 ^ 53"
  shows "round53 (of_nat n) = of_nat n"
proof -
  have "\<bar>int n\<bar> \<le> 2 ^ 53" using assms by simp
  then have "round53 (of_int (int n)) = of_int (int n)" by (rule round53_int_exact)
  then show ?thesis by simp
qed

lemma fsub_nat_exact:
  assumes "m \<le> 2 ^ 53" "n \<le> 2 ^ 53"
  shows "fsub (of_nat m) (of_nat n) = of_int (int m - int n)"
proof -
  have "int m \<le> 2 ^ 53" "int n \<le> 2 ^ 53" using assms by simp_all
  then have "\<bar>int m - int n\<bar> \<le> 2 ^ 53" by linarith
  then have "round53 (of_int (int m - int n)) = of_int (int m - int n)"
    by (rule round53_int_exact)
  then show ?thesis by (simp add: fsub_def)
qed

section \<open>The credit totals\<close>

lemma accumulate_PE: "category c = cat_PhysicalEducation \<Longrightarrow> accumulate acc c = acc"
  by (simp add: accumulate_def)

lemma total_accumulate:
  "total (accumulate acc c) =
     (if category c = cat_PhysicalEducation then total acc
      else if isCurrent c = Some True then
        (total acc)\<lparr>projected := fadd (projected (total acc)) (credits c)\<rparr>
      else (total acc)\<lparr>earned := fadd (earned (total acc)) (credits c)\<rparr>)"
  by (cases "targetKey (category c)")
     (simp_all add: accumulate_def Let_def current_def add_projected_def add_earned_def)

lemma get_bucket_accumulate:
  "get_bucket (accumulate acc c) k =
     (if category c \<noteq> cat_PhysicalEducation \<and> targetKey (category c) = k then
        if isCurrent c = Some True then
          (get_bucket acc k)\<lparr>projected := fadd (projected (get_bucket acc k)) (credits c)\<rparr>
        else (get_bucket acc k)\<lparr>earned := fadd (earned (get_bucket acc k)) (credits c)\<rparr>
      else get_bucket acc k)"
  by (cases "targetKey (category c)"; cases k)
     (simp_all add: accumulate_def Let_def current_def add_projected_def add_earned_def)

lemma totals_computeProgress: "totals (computeProgress cs r) = compute_totals cs"
  by (simp add: computeProgress_def Let_def)

lemma targetKey_fallback: "cat \<notin> set credit_bearing \<Longrightarrow> targetKey cat = KgeneralElective"
  by (simp add: targetKey_def credit_bearing_def)

text \<open>
  A field that a loop over the courses increases by the credits of some of them holds
  the sum of these credits, when the credits are integers and the sums stay within
  \<open>2 ^ 53\<close>: every addition is then exact.
\<close>

lemma fold_sum_exact:
  assumes step: "\<And>s c. g (step s c) = (if Q c then fadd (g s) (credits c) else g s)"
    and "integral (g s)"
    and "list_all (\<lambda>c. integral (credits c)) cs"
    and "\<bar>g s\<bar> + sum_list (map (\<lambda>c. \<bar>credits c\<bar>) cs) \<le> 2 ^ 53"
  shows "g (foldl step s cs) = g s + sum_list (map credits (filter Q cs))"
  using assms(2-4)
proof (induction cs arbitrary: s)
  case Nil
  then show ?case by simp
next
  case (Cons c cs)
  have c: "integral (credits c)" and rest: "list_all (\<lambda>c. integral (credits c)) cs"
    using Cons.prems(2) by simp_all
  have bound: "\<bar>g s\<bar> + \<bar>credits c\<bar> + sum_list (map (\<lambda>c. \<bar>credits c\<bar>) cs) \<le> 2 ^ 53"
    using Cons.prems(3) by (simp add: add.assoc)
  have nonneg: "0 \<le> sum_list (map (\<lambda>c. \<bar>credits c\<bar>) cs)"
    by (rule sum_list_nonneg) auto
  show ?case
  proof (cases "Q c")
    case True
    have "\<bar>g s + credits c\<bar> \<le> 2 ^ 53"
      using bound nonneg abs_triangle_ineq [of "g s" "credits c"] by linarith
    then have exact: "fadd (g s) (credits c) = g s + credits c"
      using Cons.prems(1) c by (intro fadd_exact)
    have g: "g (step s c) = g s + credits c"
      using True by (simp add: step exact)
    have "integral (g (step s c))"
      unfolding g using Cons.prems(1) c by (rule integral_add)
    moreover have "\<bar>g (step s c)\<bar> + sum_list (map (\<lambda>c. \<bar>credits c\<bar>) cs) \<le> 2 ^ 53"
      unfolding g using bound abs_triangle_ineq [of "g s" "credits c"] by linarith
    ultimately have "g (foldl step (step s c) cs) =
        g (step s c) + sum_list (map credits (filter Q cs))"
      using rest by (intro Cons.IH)
    then show ?thesis using True by (simp add: g)
  next
    case False
    have g: "g (step s c) = g s"
      using False by (simp add: step)
    have "integral (g (step s c))"
      unfolding g by (rule Cons.prems(1))
    moreover have "\<bar>g (step s c)\<bar> + sum_list (map (\<lambda>c. \<bar>credits c\<bar>) cs) \<le> 2 ^ 53"
      unfolding g using bound by linarith
    ultimately have "g (foldl step (step s c) cs) =
        g (step s c) + sum_list (map credits (filter Q cs))"
      using rest by (intro Cons.IH)
    then show ?thesis using False by (simp add: g)
  qed
qed

lemma modest_start:
  "modest_credits cs \<Longrightarrow>
   integral 0 \<and> list_all (\<lambda>c. integral (credits c)) cs
   \<and> \<bar>0 :: rat\<bar> + sum_list (map (\<lambda>c. \<bar>credits c\<bar>) cs) \<le> 2 ^ 53"
  by (simp add: modest_credits_def integral_def)

lemma earned_total_sum:
  assumes "modest_credits cs"
  shows "earned (total (compute_totals cs)) =
     sum_list (map credits
       (filter (\<lambda>c. category c \<noteq> cat_PhysicalEducation \<and> isCurrent c \<noteq> Some True) cs))"
proof -
  have "earned (total (foldl accumulate initialAcc cs)) =
      earned (total initialAcc) + sum_list (map credits
        (filter (\<lambda>c. category c \<noteq> cat_PhysicalEducation \<and> isCurrent c \<noteq> Some True) cs))"
    using modest_start [OF assms]
    by (intro fold_sum_exact) (simp_all add: total_accumulate initialAcc_def)
  then show ?thesis by (simp add: compute_totals_def initialAcc_def)
qed

lemma projected_total_sum:
  assumes "modest_credits cs"
  shows "projected (total (compute_totals cs)) =
     sum_list (map credits
       (filter (\<lambda>c. category c \<noteq> cat_PhysicalEducation \<and> isCurrent c = Some True) cs))"
proof -
  have "projected (total (foldl accumulate initialAcc cs)) =
      projected (total initialAcc) + sum_list (map credits
        (filter (\<lambda>c. category c \<noteq> cat_PhysicalEducation \<and> isCurrent c = Some True) cs))"
    using modest_start [OF assms]
    by (intro fold_sum_exact) (simp_all add: total_accumulate initialAcc_def)
  then show ?thesis by (simp add: compute_totals_def initialAcc_def)
qed

lemma get_bucket_initial: "get_bucket initialAcc k = \<lparr>earned = 0, projected = 0\<rparr>"
  by (cases k) (simp_all add: initialAcc_def)

lemma earned_bucket_sum:
  assumes "modest_credits cs"
  shows "earned (get_bucket (compute_totals cs) k) =
     sum_list (map credits
       (filter (\<lambda>c. (category c \<noteq> cat_PhysicalEducation \<and> isCurrent c \<noteq> Some True)
          \<and> targetKey (category c) = k) cs))"
proof -
  have "earned (get_bucket (foldl accumulate initialAcc cs) k) =
      earned (get_bucket initialAcc k) + sum_list (map credits
        (filter (\<lambda>c. (category c \<noteq> cat_PhysicalEducation \<and> isCurrent c \<noteq> Some True)
          \<and> targetKey (category c) = k) cs))"
    using modest_start [OF assms]
    by (intro fold_sum_exact) (simp_all add: get_bucket_accumulate get_bucket_initial)
  then show ?thesis by (simp add: compute_totals_def get_bucket_initial)
qed

lemma projected_bucket_sum:
  assumes "modest_credits cs"
  shows "projected (get_bucket (compute_totals cs) k) =
     sum_list (map credits
       (filter (\<lambda>c. (category c \<noteq> cat_PhysicalEducation \<and> isCurrent c = Some True)
          \<and> targetKey (category c) = k) cs))"
proof -
  have "projected (get_bucket (foldl accumulate initialAcc cs) k) =
      projected (get_bucket initialAcc k) + sum_list (map credits
        (filter (\<lambda>c. (category c \<noteq> cat_PhysicalEducation \<and> isCurrent c = Some True)
          \<and> targetKey (category c) = k) cs))"
    using modest_start [OF assms]
    by (intro fold_sum_exact) (simp_all add: get_bucket_accumulate get_bucket_initial)
  then show ?thesis by (simp add: compute_totals_def get_bucket_initial)
qed

text \<open>Every course has one of the five keys: the sums by key add up to the sum of all.\<close>

lemma sum_by_key:
  "sum_list (map credits (filter (\<lambda>c. P c \<and> targetKey (category c) = KcommonRequired) cs))
   + sum_list (map credits (filter (\<lambda>c. P c \<and> targetKey (category c) = KdeptRequired) cs))
   + sum_list (map credits (filter (\<lambda>c. P c \<and> targetKey (category c) = KdesignatedElective) cs))
   + sum_list (map credits (filter (\<lambda>c. P c \<and> targetKey (category c) = KgeneralElective) cs))
   + sum_list (map credits (filter (\<lambda>c. P c \<and> targetKey (category c) = KgeneralEducation) cs))
   = sum_list (map credits (filter P cs))"
proof (induction cs)
  case Nil
  then show ?case by simp
next
  case (Cons c cs)
  then show ?case by (cases "targetKey (category c)") simp_all
qed

lemma five_sums:
  assumes "modest_credits cs"
  shows "five_earned (compute_totals cs) = earned (total (compute_totals cs))"
    and "five_projected (compute_totals cs) = projected (total (compute_totals cs))"
proof -
  show "five_earned (compute_totals cs) = earned (total (compute_totals cs))"
    using earned_bucket_sum [OF assms, of KcommonRequired]
      earned_bucket_sum [OF assms, of KdeptRequired]
      earned_bucket_sum [OF assms, of KdesignatedElective]
      earned_bucket_sum [OF assms, of KgeneralElective]
      earned_bucket_sum [OF assms, of KgeneralEducation]
      sum_by_key [of "\<lambda>c. category c \<noteq> cat_PhysicalEducation \<and> isCurrent c \<noteq> Some True" cs]
    by (simp add: five_earned_def earned_total_sum [OF assms])
  show "five_projected (compute_totals cs) = projected (total (compute_totals cs))"
    using projected_bucket_sum [OF assms, of KcommonRequired]
      projected_bucket_sum [OF assms, of KdeptRequired]
      projected_bucket_sum [OF assms, of KdesignatedElective]
      projected_bucket_sum [OF assms, of KgeneralElective]
      projected_bucket_sum [OF assms, of KgeneralEducation]
      sum_by_key [of "\<lambda>c. category c \<noteq> cat_PhysicalEducation \<and> isCurrent c = Some True" cs]
    by (simp add: five_projected_def projected_total_sum [OF assms])
qed

subsection \<open>Permutations of the course list\<close>

lemma sum_filter_perm:
  assumes "mset xs = mset ys"
  shows "sum_list (map (f :: 'a \<Rightarrow> rat) (filter P xs)) = sum_list (map f (filter P ys))"
proof -
  have "mset (map f (filter P xs)) = mset (map f (filter P ys))"
    using assms by (simp only: mset_map mset_filter)
  then have "sum_mset (mset (map f (filter P xs))) = sum_mset (mset (map f (filter P ys)))"
    by (rule arg_cong)
  then show ?thesis by (simp only: sum_mset_sum_list)
qed

lemma sum_perm:
  assumes "mset xs = mset ys"
  shows "sum_list (map (f :: 'a \<Rightarrow> rat) xs) = sum_list (map f ys)"
  using sum_filter_perm [OF assms, of f "\<lambda>x. True"] by simp

lemma modest_credits_perm:
  assumes "mset cs = mset cs'" "modest_credits cs"
  shows "modest_credits cs'"
proof -
  have "set cs = set cs'" using assms(1) by (rule mset_eq_setD)
  then have "list_all (\<lambda>c. integral (credits c)) cs'"
    using assms(2) by (simp add: modest_credits_def list_all_iff)
  moreover have "sum_list (map (\<lambda>c. \<bar>credits c\<bar>) cs') \<le> 2 ^ 53"
    using assms(2) sum_perm [OF assms(1), of "\<lambda>c. \<bar>credits c\<bar>"]
    by (simp add: modest_credits_def)
  ultimately show ?thesis by (simp add: modest_credits_def)
qed

lemma compute_totals_perm:
  assumes "mset cs = mset cs'" "modest_credits cs"
  shows "compute_totals cs = compute_totals cs'"
proof -
  have m: "modest_credits cs'" using assms by (rule modest_credits_perm)
  have b: "get_bucket (compute_totals cs) k = get_bucket (compute_totals cs') k" for k
    by (rule bucket.equality)
       (simp_all add: earned_bucket_sum [OF assms(2)] earned_bucket_sum [OF m]
          projected_bucket_sum [OF assms(2)] projected_bucket_sum [OF m]
          sum_filter_perm [OF assms(1)])
  have t: "total (compute_totals cs) = total (compute_totals cs')"
    by (rule bucket.equality)
       (simp_all add: earned_total_sum [OF assms(2)] earned_total_sum [OF m]
          projected_total_sum [OF assms(2)] projected_total_sum [OF m]
          sum_filter_perm [OF assms(1)])
  show ?thesis
    using t b [of KcommonRequired] b [of KdeptRequired] b [of KdesignatedElective]
      b [of KgeneralElective] b [of KgeneralEducation]
    by (intro accumulator.equality) simp_all
qed

section \<open>The GPA pools\<close>

lemma GRADE_POINTS_letter:
  "GRADE_POINTS g = Some p \<Longrightarrow> 0 \<le> p \<Longrightarrow> g \<in> set letter_grades"
  by (auto simp: GRADE_POINTS_def letter_grades_def split: if_splits)

lemma letter_grade_points:
  "g \<in> set letter_grades \<Longrightarrow> \<exists>p. GRADE_POINTS g = Some p \<and> 0 \<le> p"
  by (auto simp: GRADE_POINTS_def letter_grades_def round53_nonneg)

lemma GRADE_POINTS_Pass: "GRADE_POINTS ''Pass'' = Some (- 1)"
  by (simp add: GRADE_POINTS_def)

lemma not_counts_PE: "category c = cat_PhysicalEducation \<Longrightarrow> \<not> counts_for_gpa c"
  by (simp add: counts_for_gpa_def)

lemma not_counts_grade:
  "grade c = ''Pass'' \<or> grade c \<notin> set letter_grades \<Longrightarrow> \<not> counts_for_gpa c"
  by (auto simp: counts_for_gpa_def letter_grades_def)

lemma gpa_step_eq:
  "gpa_step p c =
     (if counts_for_gpa c then
        if isCurrent c = Some True then
          p\<lparr>projectedPoints := fadd (projectedPoints p) (weighted c),
            projectedCredits := fadd (projectedCredits p) (credits c)\<rparr>
        else
          p\<lparr>earnedPoints := fadd (earnedPoints p) (weighted c),
            earnedCredits := fadd (earnedCredits p) (credits c)\<rparr>
      else p)"
proof (cases "GRADE_POINTS (grade c)")
  case None
  then have "grade c \<notin> set letter_grades"
    using letter_grade_points [of "grade c"] by auto
  then show ?thesis using None by (simp add: gpa_step_def counts_for_gpa_def)
next
  case (Some points)
  show ?thesis
  proof (cases "0 \<le> points")
    case True
    then have "grade c \<in> set letter_grades"
      using Some by (intro GRADE_POINTS_letter)
    then show ?thesis
      using Some True by (simp add: gpa_step_def counts_for_gpa_def weighted_def current_def)
  next
    case False
    then have "grade c \<notin> set letter_grades"
      using Some letter_grade_points [of "grade c"] by auto
    then show ?thesis using Some False by (simp add: gpa_step_def counts_for_gpa_def)
  qed
qed

lemma gpa_step_skip: "\<not> counts_for_gpa c \<Longrightarrow> gpa_step p c = p"
  by (simp add: gpa_step_eq)

lemma compute_pools_snoc_skip:
  "\<not> counts_for_gpa c \<Longrightarrow> compute_pools (cs @ [c]) = compute_pools cs"
  by (simp add: compute_pools_def gpa_step_skip)

lemma earnedCredits_foldl:
  "earnedCredits (foldl gpa_step p cs) =
     foldl fadd (earnedCredits p) (map credits (earned_pool cs))"
  by (induction cs arbitrary: p) (simp_all add: gpa_step_eq earned_pool_def)

lemma projectedCredits_foldl:
  "projectedCredits (foldl gpa_step p cs) =
     foldl fadd (projectedCredits p) (map credits (projected_pool cs))"
  by (induction cs arbitrary: p) (simp_all add: gpa_step_eq projected_pool_def)

lemma earnedPoints_foldl:
  "earnedPoints (foldl gpa_step p cs) =
     foldl fadd (earnedPoints p) (map weighted (earned_pool cs))"
  by (induction cs arbitrary: p) (simp_all add: gpa_step_eq earned_pool_def)

lemma projectedPoints_foldl:
  "projectedPoints (foldl gpa_step p cs) =
     foldl fadd (projectedPoints p) (map weighted (projected_pool cs))"
  by (induction cs arbitrary: p) (simp_all add: gpa_step_eq projected_pool_def)

text \<open>The credit weights of the two pools are exact sums when the credits are modest.\<close>

lemma earnedCredits_sum:
  assumes "modest_credits cs"
  shows "earnedCredits (compute_pools cs) = sum_list (map credits (earned_pool cs))"
proof -
  have "earnedCredits (foldl gpa_step no_pools cs) =
      earnedCredits no_pools + sum_list (map credits
        (filter (\<lambda>c. counts_for_gpa c \<and> isCurrent c \<noteq> Some True) cs))"
    using modest_start [OF assms]
    by (intro fold_sum_exact) (simp_all add: gpa_step_eq no_pools_def)
  then show ?thesis by (simp add: compute_pools_def no_pools_def earned_pool_def)
qed

lemma projectedCredits_sum:
  assumes "modest_credits cs"
  shows "projectedCredits (compute_pools cs) = sum_list (map credits (projected_pool cs))"
proof -
  have "projectedCredits (foldl gpa_step no_pools cs) =
      projectedCredits no_pools + sum_list (map credits
        (filter (\<lambda>c. counts_for_gpa c \<and> isCurrent c = Some True) cs))"
    using modest_start [OF assms]
    by (intro fold_sum_exact) (simp_all add: gpa_step_eq no_pools_def)
  then show ?thesis by (simp add: compute_pools_def no_pools_def projected_pool_def)
qed

text \<open>The points of a pool are not negative.\<close>

lemma weighted_nonneg: "counts_for_gpa c \<Longrightarrow> 0 \<le> weighted c"
  using letter_grade_points [of "grade c"]
  by (auto simp: counts_for_gpa_def weighted_def fmul_nonneg)

lemma foldl_fadd_nonneg:
  "0 \<le> a \<Longrightarrow> list_all (\<lambda>x. 0 \<le> x) xs \<Longrightarrow> 0 \<le> foldl fadd a xs"
  by (induction xs arbitrary: a) (simp_all add: fadd_nonneg)

lemma earnedPoints_nonneg: "0 \<le> earnedPoints (compute_pools cs)"
  unfolding compute_pools_def earnedPoints_foldl
  by (rule foldl_fadd_nonneg)
     (simp_all add: no_pools_def earned_pool_def list_all_iff weighted_nonneg)

lemma projectedPoints_nonneg: "0 \<le> projectedPoints (compute_pools cs)"
  unfolding compute_pools_def projectedPoints_foldl
  by (rule foldl_fadd_nonneg)
     (simp_all add: no_pools_def projected_pool_def list_all_iff weighted_nonneg)

subsection \<open>The string of a GPA\<close>

lemma gpa_string_guard:
  "gpa_string points weight =
     (if 0 < weight then toFixed2 (round53 (points / weight)) else ''0.00'')"
  by (simp add: gpa_string_def fdiv_def)

lemma decimal_snoc: "decimal (t @ [c]) = 10 * decimal t + (of_char c - 48)"
  by (simp add: decimal_def)

lemma digit_char: "d < (10 :: nat) \<Longrightarrow> (of_char (char_of (48 + d) :: char) :: nat) = 48 + d"
  by simp

lemma digits_small: "n < 10 \<Longrightarrow> digits n = [char_of (48 + n)]"
  by (subst digits.simps) simp

lemma digits_large: "\<not> n < 10 \<Longrightarrow> digits n = digits (n div 10) @ [char_of (48 + n mod 10)]"
  by (subst digits.simps) simp

lemma is_digit_char: "d < (10 :: nat) \<Longrightarrow> is_digit (char_of (48 + d))"
  by (simp add: is_digit_def)

lemma decimal_digits: "decimal (digits n) = n"
proof (induction n rule: digits.induct)
  case (1 n)
  show ?case
  proof (cases "n < 10")
    case True
    then show ?thesis by (simp add: digits_small decimal_def)
  next
    case False
    have "decimal (digits n) = 10 * decimal (digits (n div 10)) + n mod 10"
      by (simp add: digits_large [OF False] decimal_snoc)
    then show ?thesis using 1 [OF False] by simp
  qed
qed

lemma digits_are_digits: "list_all is_digit (digits n)"
proof (induction n rule: digits.induct)
  case (1 n)
  show ?case
  proof (cases "n < 10")
    case True
    then show ?thesis by (simp add: digits_small is_digit_char)
  next
    case False
    have "n mod 10 < 10" by simp
    then have "is_digit (char_of (48 + n mod 10))" by (rule is_digit_char)
    then show ?thesis using 1 [OF False] by (simp add: digits_large [OF False])
  qed
qed

lemma digits_not_Nil: "digits n \<noteq> []"
  by (cases "n < 10") (simp_all add: digits_small digits_large)

lemma point_no_digit: "\<not> is_digit CHR ''.''"
  by (simp add: is_digit_def)

text \<open>The string of \<open>toFixed(2)\<close> is a numeral with two decimals, of the value \<open>n / 100\<close>.\<close>

lemma two_decimals_toFixed2:
  assumes "0 \<le> x"
  shows "two_decimals (toFixed2 x) = Some (of_nat (hundredths x) / 100)"
proof -
  define n where "n = hundredths x"
  define w where "w = digits (n div 100)"
  define a :: char where "a = char_of (48 + n mod 100 div 10)"
  define b :: char where "b = char_of (48 + n mod 10)"
  have da: "n mod 100 div 10 < 10" and db: "n mod 10 < 10" by simp_all
  have s: "toFixed2 x = w @ [CHR ''.'', a, b]"
    using assms da db
    by (simp add: toFixed2_def Let_def n_def w_def a_def b_def digits_small)
  have w: "\<forall>c\<in>set w. is_digit c"
    using digits_are_digits [of "n div 100"] by (simp add: w_def list_all_iff)
  have tw: "takeWhile is_digit (w @ [CHR ''.'', a, b]) = w"
    using w point_no_digit by simp
  have dw: "dropWhile is_digit (w @ [CHR ''.'', a, b]) = [CHR ''.'', a, b]"
    using w point_no_digit by simp
  have ab: "is_digit a" "is_digit b"
    using da db by (simp_all only: a_def b_def is_digit_char)
  have vab: "decimal [a, b] = n mod 100"
  proof -
    have "decimal [a, b] = 10 * (n mod 100 div 10) + n mod 10"
      using da db by (simp add: decimal_def a_def b_def)
    also have "n mod 10 = n mod 100 mod 10"
      by (simp add: mod_mod_cancel)
    finally show ?thesis by simp
  qed
  have vw: "decimal w = n div 100"
    by (simp add: w_def decimal_digits)
  have "(of_nat (n div 100) :: rat) + of_nat (n mod 100) / 100 = of_nat n / 100"
  proof -
    have "(of_nat n :: rat) = of_nat (100 * (n div 100) + n mod 100)" by simp
    then have e: "(of_nat n :: rat) = 100 * of_nat (n div 100) + of_nat (n mod 100)"
      by (simp only: of_nat_add of_nat_mult of_nat_numeral)
    show ?thesis by (subst e) (simp add: field_simps)
  qed
  then show ?thesis
    using ab digits_not_Nil [of "n div 100"]
    by (simp add: s two_decimals_def tw dw vab vw n_def [symmetric] w_def [symmetric])
qed

text \<open>It is the multiple of a hundredth nearest to the number, the larger one of two.\<close>

lemma hundredths_nearest:
  assumes "0 \<le> x"
  shows "of_nat (hundredths x) / 100 - 1 / 200 \<le> x"
    and "x < of_nat (hundredths x) / 100 + 1 / 200"
proof -
  define k where "k = \<lfloor>x * 100 + 1 / 2\<rfloor>"
  have k0: "0 \<le> k" using assms by (simp add: k_def)
  have n: "(of_nat (hundredths x) :: rat) = of_int k"
    using k0 assms by (simp add: hundredths_def k_def)
  have lo: "of_int k \<le> x * 100 + 1 / 2"
    unfolding k_def by (rule of_int_floor_le)
  have hi: "x * 100 + 1 / 2 < of_int k + 1"
    unfolding k_def by linarith
  show "of_nat (hundredths x) / 100 - 1 / 200 \<le> x"
    unfolding n using lo by linarith
  show "x < of_nat (hundredths x) / 100 + 1 / 200"
    unfolding n using hi by linarith
qed

lemma gpa_string_two_decimals:
  assumes "0 < weight" "0 \<le> points"
  shows "\<exists>v. two_decimals (gpa_string points weight) = Some v
     \<and> v - 1 / 200 \<le> round53 (points / weight)
     \<and> round53 (points / weight) < v + 1 / 200"
proof -
  have q: "0 \<le> round53 (points / weight)"
    using assms by (intro round53_nonneg) simp
  have "two_decimals (gpa_string points weight) =
      Some (of_nat (hundredths (round53 (points / weight))) / 100)"
    using assms(1) two_decimals_toFixed2 [OF q] by (simp only: gpa_string_guard if_True)
  then show ?thesis
    using hundredths_nearest [OF q] by blast
qed

lemma earnedCredits_nonneg: "0 \<le> earnedCredits (compute_pools cs)"
  unfolding compute_pools_def earnedCredits_foldl
  by (rule foldl_fadd_nonneg)
     (simp_all add: no_pools_def earned_pool_def list_all_iff counts_for_gpa_def)

lemma projectedCredits_nonneg: "0 \<le> projectedCredits (compute_pools cs)"
  unfolding compute_pools_def projectedCredits_foldl
  by (rule foldl_fadd_nonneg)
     (simp_all add: no_pools_def projected_pool_def list_all_iff counts_for_gpa_def)

section \<open>Claims about the aggregation\<close>

lemma grade_point_A_plus: "GRADE_POINTS ''A+'' = Some (round53 (43 / 10))"
  by (simp add: GRADE_POINTS_def)

lemma grade_point_B: "GRADE_POINTS ''B'' = Some (round53 3)"
  by (simp add: GRADE_POINTS_def)

lemma grade_points_nonneg: "0 \<le> round53 (43 / 10)" "0 \<le> round53 3"
  by (simp_all add: round53_nonneg)

lemma three_credits: "fadd 0 3 = 3" "fadd 3 3 = 6"
  by code_simp+

lemma example_current_gpa: "gpa_string (fadd 0 (fmul (round53 (43 / 10)) 3)) 3 = ''4.30''"
  by code_simp

lemma example_projected_gpa:
  "gpa_string (fadd (fadd 0 (fmul (round53 (43 / 10)) 3)) (fadd 0 (fmul (round53 3) 3))) 6
     = ''3.65''"
  by code_simp

lemma dept_required_distinct:
  "cat_DeptRequired \<noteq> cat_PhysicalEducation" "cat_DeptRequired \<noteq> cat_CommonRequired"
  by (simp_all add: cat_DeptRequired_def cat_PhysicalEducation_def cat_CommonRequired_def)

text \<open>
  C1. For the two courses of the example (3 credits, \<open>A+\<close>, department required, not
  current; 3 credits, \<open>B\<close>, department required, current), whatever their other fields and
  whatever the requirements, the report has \<open>deptRequired.earned = 3\<close>,
  \<open>deptRequired.projected = 3\<close>, \<open>currentGPA = "4.30"\<close> and \<open>projectedGPA = "3.65"\<close>.
\<close>

theorem example_report:
  "earned (deptRequired (totals (computeProgress
      [\<lparr>course_id = i1, semester = s1, name = n1, credits = 3, category = cat_DeptRequired,
         grade = ''A+'', isCurrent = Some False\<rparr>,
       \<lparr>course_id = i2, semester = s2, name = n2, credits = 3, category = cat_DeptRequired,
         grade = ''B'', isCurrent = Some True\<rparr>] r))) = 3
   \<and> projected (deptRequired (totals (computeProgress
      [\<lparr>course_id = i1, semester = s1, name = n1, credits = 3, category = cat_DeptRequired,
         grade = ''A+'', isCurrent = Some False\<rparr>,
       \<lparr>course_id = i2, semester = s2, name = n2, credits = 3, category = cat_DeptRequired,
         grade = ''B'', isCurrent = Some True\<rparr>] r))) = 3
   \<and> currentGPA (computeProgress
      [\<lparr>course_id = i1, semester = s1, name = n1, credits = 3, category = cat_DeptRequired,
         grade = ''A+'', isCurrent = Some False\<rparr>,
       \<lparr>course_id = i2, semester = s2, name = n2, credits = 3, category = cat_DeptRequired,
         grade = ''B'', isCurrent = Some True\<rparr>] r) = ''4.30''
   \<and> projectedGPA (computeProgress
      [\<lparr>course_id = i1, semester = s1, name = n1, credits = 3, category = cat_DeptRequired,
         grade = ''A+'', isCurrent = Some False\<rparr>,
       \<lparr>course_id = i2, semester = s2, name = n2, credits = 3, category = cat_DeptRequired,
         grade = ''B'', isCurrent = Some True\<rparr>] r) = ''3.65''"
  by (simp add: computeProgress_def Let_def compute_totals_def accumulate_def initialAcc_def
        targetKey_def add_earned_def add_projected_def compute_pools_def gpa_step_def
        no_pools_def current_def grade_point_A_plus three_credits
        grade_point_B grade_points_nonneg dept_required_distinct example_current_gpa
        example_projected_gpa)

lemma fractional_ordinary: "ordinary_credits fractional_courses"
proof -
  have "ordinary_credit (round53 (1 / 10))" "ordinary_credit (round53 (11 / 10))"
    by code_simp+
  then show ?thesis by (simp add: ordinary_credits_def fractional_courses_def)
qed

lemma fractional_totals:
  "compute_totals fractional_courses =
     \<lparr>total = \<lparr>earned = 5854679515581645 / 4503599627370496, projected = 0\<rparr>,
      commonRequired = \<lparr>earned = 3602879701896397 / 36028797018963968, projected = 0\<rparr>,
      deptRequired = \<lparr>earned = 1351079888211149 / 1125899906842624, projected = 0\<rparr>,
      designatedElective = \<lparr>earned = 0, projected = 0\<rparr>,
      generalElective = \<lparr>earned = 0, projected = 0\<rparr>,
      generalEducation = \<lparr>earned = 0, projected = 0\<rparr>\<rparr>"
  by code_simp

lemma fractional_values:
  "round53 (13 / 10) = 5854679515581645 / 4503599627370496"
  "round53 (6 / 5) + pow2 (- 52) = 1351079888211149 / 1125899906842624"
  "round53 (1 / 10) = 3602879701896397 / 36028797018963968"
  "fadd (fadd (fadd (fadd (fadd 0 (3602879701896397 / 36028797018963968))
      (1351079888211149 / 1125899906842624)) 0) 0) 0 = 2927339757790823 / 2251799813685248"
  by code_simp+

text \<open>
  C2, the counterexample. The credits are doubles and every \<open>+=\<close> rounds. Three courses
  that are not current, of 0.1 credits (department required), 0.1 credits (common
  required) and 1.1 credits (department required), all within the ordinary range, give
  \<open>total.earned = 1.3\<close>, \<open>deptRequired.earned = 1.2000000000000002\<close> and
  \<open>commonRequired.earned = 0.1\<close>: the five buckets add up to more than the total, as
  rationals, and as doubles added from left to right (\<open>1.3000000000000003\<close>).
\<close>

theorem bucket_sums_differ_on_fractions:
  "ordinary_credits fractional_courses
   \<and> earned (total (totals (computeProgress fractional_courses ACCOUNTING_111_REQUIREMENTS)))
       = round53 (13 / 10)
   \<and> earned (deptRequired (totals (computeProgress fractional_courses
         ACCOUNTING_111_REQUIREMENTS))) = round53 (6 / 5) + pow2 (- 52)
   \<and> earned (commonRequired (totals (computeProgress fractional_courses
         ACCOUNTING_111_REQUIREMENTS))) = round53 (1 / 10)
   \<and> five_earned (totals (computeProgress fractional_courses ACCOUNTING_111_REQUIREMENTS))
       \<noteq> earned (total (totals (computeProgress fractional_courses
             ACCOUNTING_111_REQUIREMENTS)))
   \<and> foldl fadd 0 (map (\<lambda>k. earned (get_bucket
         (totals (computeProgress fractional_courses ACCOUNTING_111_REQUIREMENTS)) k))
         [KcommonRequired, KdeptRequired, KdesignatedElective, KgeneralElective,
          KgeneralEducation])
       \<noteq> earned (total (totals (computeProgress fractional_courses
             ACCOUNTING_111_REQUIREMENTS)))"
  by (simp add: totals_computeProgress fractional_totals fractional_values
        fractional_ordinary five_earned_def)

text \<open>
  C2, as the program has it. When every credit is an integer and the magnitudes of all
  credits together are at most \<open>2 ^ 53\<close>, the earned sums of the five credit-bearing
  buckets add up to \<open>total.earned\<close> and their projected sums to \<open>total.projected\<close>; the
  two totals are the credits of the courses that are not physical education (the
  current ones in \<open>projected\<close>, the others in \<open>earned\<close>), so that a physical education
  course adds 0 to every sum.
\<close>

theorem bucket_sums_equal_total:
  assumes "modest_credits cs"
  shows "five_earned (totals (computeProgress cs r)) =
       earned (total (totals (computeProgress cs r)))
   \<and> five_projected (totals (computeProgress cs r)) =
       projected (total (totals (computeProgress cs r)))
   \<and> earned (total (totals (computeProgress cs r))) =
       sum_list (map credits
         (filter (\<lambda>c. category c \<noteq> cat_PhysicalEducation \<and> isCurrent c \<noteq> Some True) cs))
   \<and> projected (total (totals (computeProgress cs r))) =
       sum_list (map credits
         (filter (\<lambda>c. category c \<noteq> cat_PhysicalEducation \<and> isCurrent c = Some True) cs))"
  using five_sums [OF assms] earned_total_sum [OF assms] projected_total_sum [OF assms]
  by (simp only: totals_computeProgress simp_thms)

lemma three_and_pe_modest: "modest_credits (three_courses @ [pe_course, other_current_course])"
  by code_simp

lemma three_and_pe_sums:
  "sum_list (map credits (filter (\<lambda>c. category c \<noteq> cat_PhysicalEducation
      \<and> isCurrent c \<noteq> Some True) (three_courses @ [pe_course, other_current_course]))) = 4"
  "sum_list (map credits (filter (\<lambda>c. category c \<noteq> cat_PhysicalEducation
      \<and> isCurrent c = Some True) (three_courses @ [pe_course, other_current_course]))) = 3"
  by code_simp+

theorem bucket_sums_equal_total_witness:
  "modest_credits (three_courses @ [pe_course, other_current_course])
   \<and> five_earned (totals (computeProgress (three_courses @ [pe_course, other_current_course])
        ACCOUNTING_111_REQUIREMENTS)) = 4
   \<and> earned (total (totals (computeProgress (three_courses @ [pe_course, other_current_course])
        ACCOUNTING_111_REQUIREMENTS))) = 4
   \<and> five_projected (totals (computeProgress
        (three_courses @ [pe_course, other_current_course]) ACCOUNTING_111_REQUIREMENTS)) = 3
   \<and> projected (total (totals (computeProgress
        (three_courses @ [pe_course, other_current_course]) ACCOUNTING_111_REQUIREMENTS))) = 3"
  using bucket_sums_equal_total [OF three_and_pe_modest, of ACCOUNTING_111_REQUIREMENTS]
  by (simp only: three_and_pe_sums three_and_pe_modest simp_thms)

text \<open>
  C3. A physical education course appended to a course list changes nothing in the
  report, whatever its credits and its \<open>isCurrent\<close> flag: no bucket, no total, no GPA.
\<close>

theorem physical_education_ignored:
  "category c = cat_PhysicalEducation \<Longrightarrow> computeProgress (cs @ [c]) r = computeProgress cs r"
  by (simp add: computeProgress_def compute_totals_def accumulate_PE
        compute_pools_snoc_skip not_counts_PE)

theorem physical_education_ignored_witness:
  "category pe_course = cat_PhysicalEducation \<and> credits pe_course = 4 \<and>
   computeProgress (three_courses @ [pe_course]) ACCOUNTING_111_REQUIREMENTS =
   computeProgress three_courses ACCOUNTING_111_REQUIREMENTS"
  using physical_education_ignored [of pe_course three_courses ACCOUNTING_111_REQUIREMENTS]
  by (simp add: pe_course_def)

text \<open>
  C4. A course whose grade is \<open>Pass\<close>, or is not one of the ten letter grades, appended
  to a course list leaves \<open>currentGPA\<close> and \<open>projectedGPA\<close> as they were, whatever its
  credits.
\<close>

theorem ungraded_course_leaves_gpa:
  "grade c = ''Pass'' \<or> grade c \<notin> set letter_grades \<Longrightarrow>
   currentGPA (computeProgress (cs @ [c]) r) = currentGPA (computeProgress cs r) \<and>
   projectedGPA (computeProgress (cs @ [c]) r) = projectedGPA (computeProgress cs r)"
  by (simp add: computeProgress_def Let_def compute_pools_snoc_skip not_counts_grade)

theorem ungraded_course_leaves_gpa_witness:
  "grade pass_course = ''Pass'' \<and> grade legacy_course \<notin> set letter_grades \<and>
   currentGPA (computeProgress (three_courses @ [pass_course]) ACCOUNTING_111_REQUIREMENTS) =
     currentGPA (computeProgress three_courses ACCOUNTING_111_REQUIREMENTS) \<and>
   projectedGPA (computeProgress (three_courses @ [pass_course]) ACCOUNTING_111_REQUIREMENTS) =
     projectedGPA (computeProgress three_courses ACCOUNTING_111_REQUIREMENTS) \<and>
   currentGPA (computeProgress (three_courses @ [legacy_course]) ACCOUNTING_111_REQUIREMENTS) =
     currentGPA (computeProgress three_courses ACCOUNTING_111_REQUIREMENTS) \<and>
   projectedGPA (computeProgress (three_courses @ [legacy_course]) ACCOUNTING_111_REQUIREMENTS) =
     projectedGPA (computeProgress three_courses ACCOUNTING_111_REQUIREMENTS)"
  using ungraded_course_leaves_gpa [of pass_course three_courses ACCOUNTING_111_REQUIREMENTS]
    ungraded_course_leaves_gpa [of legacy_course three_courses ACCOUNTING_111_REQUIREMENTS]
  by (simp add: pass_course_def legacy_course_def letter_grades_def)

lemma modest_credits_remove:
  assumes "modest_credits (xs @ c # ys)"
  shows "modest_credits (xs @ ys)"
proof -
  have c0: "0 \<le> \<bar>credits c\<bar>" by simp
  have split: "sum_list (map (\<lambda>c. \<bar>credits c\<bar>) (xs @ c # ys)) =
      sum_list (map (\<lambda>c. \<bar>credits c\<bar>) (xs @ ys)) + \<bar>credits c\<bar>"
    by simp
  have "sum_list (map (\<lambda>c. \<bar>credits c\<bar>) (xs @ c # ys)) \<le> 2 ^ 53"
    using assms by (simp only: modest_credits_def)
  then have "sum_list (map (\<lambda>c. \<bar>credits c\<bar>) (xs @ ys)) \<le> 2 ^ 53"
    unfolding split using c0 by linarith
  moreover have "list_all (\<lambda>c. integral (credits c)) (xs @ ys)"
    using assms by (simp add: modest_credits_def)
  ultimately show ?thesis by (simp only: modest_credits_def simp_thms)
qed

text \<open>
  With modest credits the place of a course in the list does not matter: a course of
  another category adds its credits to \<open>generalElective\<close> and to the total.
\<close>

lemma insert_other_category:
  assumes cat: "category c \<notin> set credit_bearing" "category c \<noteq> cat_PhysicalEducation"
    and m: "modest_credits (xs @ c # ys)"
  shows "compute_totals (xs @ c # ys) =
     (if isCurrent c = Some True then
        (compute_totals (xs @ ys))
          \<lparr>generalElective :=
             \<lparr>earned = earned (generalElective (compute_totals (xs @ ys))),
              projected = projected (generalElective (compute_totals (xs @ ys))) + credits c\<rparr>,
           total :=
             \<lparr>earned = earned (total (compute_totals (xs @ ys))),
              projected = projected (total (compute_totals (xs @ ys))) + credits c\<rparr>\<rparr>
      else
        (compute_totals (xs @ ys))
          \<lparr>generalElective :=
             \<lparr>earned = earned (generalElective (compute_totals (xs @ ys))) + credits c,
              projected = projected (generalElective (compute_totals (xs @ ys)))\<rparr>,
           total :=
             \<lparr>earned = earned (total (compute_totals (xs @ ys))) + credits c,
              projected = projected (total (compute_totals (xs @ ys)))\<rparr>\<rparr>)"
proof -
  have m2: "modest_credits (xs @ ys)" using m by (rule modest_credits_remove)
  have key: "targetKey (category c) = KgeneralElective"
    using cat(1) by (rule targetKey_fallback)
  have e: "earned (get_bucket (compute_totals (xs @ c # ys)) k) =
      earned (get_bucket (compute_totals (xs @ ys)) k)
      + (if isCurrent c \<noteq> Some True \<and> k = KgeneralElective then credits c else 0)" for k
    using cat(2) key by (simp add: earned_bucket_sum [OF m] earned_bucket_sum [OF m2])
  have p: "projected (get_bucket (compute_totals (xs @ c # ys)) k) =
      projected (get_bucket (compute_totals (xs @ ys)) k)
      + (if isCurrent c = Some True \<and> k = KgeneralElective then credits c else 0)" for k
    using cat(2) key by (simp add: projected_bucket_sum [OF m] projected_bucket_sum [OF m2])
  have te: "earned (total (compute_totals (xs @ c # ys))) =
      earned (total (compute_totals (xs @ ys)))
      + (if isCurrent c \<noteq> Some True then credits c else 0)"
    using cat(2) by (simp add: earned_total_sum [OF m] earned_total_sum [OF m2])
  have tp: "projected (total (compute_totals (xs @ c # ys))) =
      projected (total (compute_totals (xs @ ys)))
      + (if isCurrent c = Some True then credits c else 0)"
    using cat(2) by (simp add: projected_total_sum [OF m] projected_total_sum [OF m2])
  show ?thesis
    using te tp e [of KcommonRequired] e [of KdeptRequired] e [of KdesignatedElective]
      e [of KgeneralElective] e [of KgeneralEducation]
      p [of KcommonRequired] p [of KdeptRequired] p [of KdesignatedElective]
      p [of KgeneralElective] p [of KgeneralEducation]
    by (intro accumulator.equality bucket.equality) simp_all
qed

lemma append_other_category:
  assumes cat: "category c \<notin> set credit_bearing" "category c \<noteq> cat_PhysicalEducation"
  shows "compute_totals (cs @ [c]) =
     (if isCurrent c = Some True then
        (compute_totals cs)
          \<lparr>generalElective :=
             \<lparr>earned = earned (generalElective (compute_totals cs)),
              projected = fadd (projected (generalElective (compute_totals cs))) (credits c)\<rparr>,
           total :=
             \<lparr>earned = earned (total (compute_totals cs)),
              projected = fadd (projected (total (compute_totals cs))) (credits c)\<rparr>\<rparr>
      else
        (compute_totals cs)
          \<lparr>generalElective :=
             \<lparr>earned = fadd (earned (generalElective (compute_totals cs))) (credits c),
              projected = projected (generalElective (compute_totals cs))\<rparr>,
           total :=
             \<lparr>earned = fadd (earned (total (compute_totals cs))) (credits c),
              projected = projected (total (compute_totals cs))\<rparr>\<rparr>)"
  using cat
  by (simp add: compute_totals_def accumulate_def targetKey_fallback Let_def current_def
        add_projected_def add_earned_def)

text \<open>
  C5. A course whose category is none of the five credit-bearing ones and is not
  physical education (it is \<open>Other\<close> or a string that is no category at all) adds its
  credits to the \<open>generalElective\<close> bucket and to the total, on the projected side when it
  is current and on the earned side otherwise; nothing else changes, and the course is
  not dropped. For a course at the end of a list of ordinary credits the two additions
  are those of doubles; with modest credits they are exact, and the course may stand
  anywhere in the list.
\<close>

theorem other_category_to_generalElective:
  assumes "category c \<notin> set credit_bearing" and "category c \<noteq> cat_PhysicalEducation"
  shows "(ordinary_credits (cs @ [c]) \<longrightarrow>
     totals (computeProgress (cs @ [c]) r) =
       (if isCurrent c = Some True then
          (totals (computeProgress cs r))
            \<lparr>generalElective :=
               \<lparr>earned = earned (generalElective (totals (computeProgress cs r))),
                projected =
                  fadd (projected (generalElective (totals (computeProgress cs r)))) (credits c)\<rparr>,
             total :=
               \<lparr>earned = earned (total (totals (computeProgress cs r))),
                projected = fadd (projected (total (totals (computeProgress cs r)))) (credits c)\<rparr>\<rparr>
        else
          (totals (computeProgress cs r))
            \<lparr>generalElective :=
               \<lparr>earned =
                  fadd (earned (generalElective (totals (computeProgress cs r)))) (credits c),
                projected = projected (generalElective (totals (computeProgress cs r)))\<rparr>,
             total :=
               \<lparr>earned = fadd (earned (total (totals (computeProgress cs r)))) (credits c),
                projected = projected (total (totals (computeProgress cs r)))\<rparr>\<rparr>))
   \<and> (modest_credits (xs @ c # ys) \<longrightarrow>
     totals (computeProgress (xs @ c # ys) r) =
       (if isCurrent c = Some True then
          (totals (computeProgress (xs @ ys) r))
            \<lparr>generalElective :=
               \<lparr>earned = earned (generalElective (totals (computeProgress (xs @ ys) r))),
                projected =
                  projected (generalElective (totals (computeProgress (xs @ ys) r))) + credits c\<rparr>,
             total :=
               \<lparr>earned = earned (total (totals (computeProgress (xs @ ys) r))),
                projected = projected (total (totals (computeProgress (xs @ ys) r))) + credits c\<rparr>\<rparr>
        else
          (totals (computeProgress (xs @ ys) r))
            \<lparr>generalElective :=
               \<lparr>earned =
                  earned (generalElective (totals (computeProgress (xs @ ys) r))) + credits c,
                projected = projected (generalElective (totals (computeProgress (xs @ ys) r)))\<rparr>,
             total :=
               \<lparr>earned = earned (total (totals (computeProgress (xs @ ys) r))) + credits c,
                projected = projected (total (totals (computeProgress (xs @ ys) r)))\<rparr>\<rparr>))"
  unfolding totals_computeProgress
  using append_other_category [OF assms, of cs] insert_other_category [OF assms, of xs ys]
  by blast

lemma other_categories:
  "category legacy_course \<notin> set credit_bearing"
  "category legacy_course \<noteq> cat_PhysicalEducation"
  "category other_current_course \<notin> set credit_bearing"
  "category other_current_course \<noteq> cat_PhysicalEducation"
  by (simp_all add: legacy_course_def other_current_course_def credit_bearing_def
        cat_CommonRequired_def cat_DeptRequired_def cat_DesignatedElective_def
        cat_GeneralElective_def cat_GeneralEducation_def cat_PhysicalEducation_def
        cat_Other_def)

lemma small_credits_ordinary:
  "ordinary_credit 1" "ordinary_credit 2" "ordinary_credit 3" "ordinary_credit 4"
  by code_simp+

lemma other_examples_ordinary:
  "ordinary_credits ([pe_course] @ [legacy_course])"
  "ordinary_credits (three_courses @ [other_current_course])"
  by (simp_all add: ordinary_credits_def pe_course_def legacy_course_def three_courses_def
        other_current_course_def small_credits_ordinary)

lemma other_examples_modest:
  "modest_credits ([] @ other_current_course # three_courses)"
  "modest_credits ([pe_course] @ legacy_course # three_courses)"
  by code_simp+

lemma three_courses_totals:
  "compute_totals three_courses =
     initialAcc\<lparr>deptRequired := \<lparr>earned = 4, projected = 0\<rparr>,
                total := \<lparr>earned = 4, projected = 0\<rparr>\<rparr>"
  "compute_totals [pe_course] = initialAcc"
  "compute_totals (pe_course # three_courses) =
     initialAcc\<lparr>deptRequired := \<lparr>earned = 4, projected = 0\<rparr>,
                total := \<lparr>earned = 4, projected = 0\<rparr>\<rparr>"
  "fadd 0 2 = 2" "fadd 0 3 = 3"
  by code_simp+

theorem other_category_to_generalElective_witness:
  "category legacy_course \<notin> set credit_bearing
   \<and> category legacy_course \<noteq> cat_PhysicalEducation
   \<and> category other_current_course \<notin> set credit_bearing
   \<and> category other_current_course \<noteq> cat_PhysicalEducation
   \<and> ordinary_credits ([pe_course] @ [legacy_course])
   \<and> ordinary_credits (three_courses @ [other_current_course])
   \<and> modest_credits ([] @ other_current_course # three_courses)
   \<and> modest_credits ([pe_course] @ legacy_course # three_courses)
   \<and> totals (computeProgress ([pe_course] @ [legacy_course]) ACCOUNTING_111_REQUIREMENTS) =
       initialAcc\<lparr>generalElective := \<lparr>earned = 2, projected = 0\<rparr>,
                  total := \<lparr>earned = 2, projected = 0\<rparr>\<rparr>
   \<and> totals (computeProgress (three_courses @ [other_current_course])
        ACCOUNTING_111_REQUIREMENTS) =
       initialAcc\<lparr>deptRequired := \<lparr>earned = 4, projected = 0\<rparr>,
                  generalElective := \<lparr>earned = 0, projected = 3\<rparr>,
                  total := \<lparr>earned = 4, projected = 3\<rparr>\<rparr>
   \<and> totals (computeProgress ([] @ other_current_course # three_courses)
        ACCOUNTING_111_REQUIREMENTS) =
       initialAcc\<lparr>deptRequired := \<lparr>earned = 4, projected = 0\<rparr>,
                  generalElective := \<lparr>earned = 0, projected = 3\<rparr>,
                  total := \<lparr>earned = 4, projected = 3\<rparr>\<rparr>
   \<and> totals (computeProgress ([pe_course] @ legacy_course # three_courses)
        ACCOUNTING_111_REQUIREMENTS) =
       initialAcc\<lparr>deptRequired := \<lparr>earned = 4, projected = 0\<rparr>,
                  generalElective := \<lparr>earned = 2, projected = 0\<rparr>,
                  total := \<lparr>earned = 6, projected = 0\<rparr>\<rparr>"
proof -
  have cur: "isCurrent legacy_course \<noteq> Some True" "credits legacy_course = 2"
    "isCurrent other_current_course = Some True" "credits other_current_course = 3"
    by (simp_all add: legacy_course_def other_current_course_def)
  note a = other_category_to_generalElective [OF other_categories(1,2),
      of "[pe_course]" ACCOUNTING_111_REQUIREMENTS "[pe_course]" three_courses]
  note b = other_category_to_generalElective [OF other_categories(3,4),
      of three_courses ACCOUNTING_111_REQUIREMENTS "[]" three_courses]
  show ?thesis
    using a b other_categories other_examples_ordinary other_examples_modest cur
    by (simp add: totals_computeProgress three_courses_totals initialAcc_def)
qed

text \<open>
  C6. Over ordinary credits: the earned pool is made of the courses with a letter grade
  and positive credits that are neither physical education nor current, the projected
  pool of those that are current; the credit weight of a pool is the sum of the credits
  of its courses and its points the sum of their grade points times their credits, added
  up as doubles in the order of the list. \<open>currentGPA\<close> is \<open>"0.00"\<close> when the earned credit
  weight is 0; otherwise it is a numeral with two decimals, the one nearest to the
  quotient of the earned points by the earned credit weight (a double), the larger one of
  two. \<open>projectedGPA\<close> is the same on the sums of the two pools. On the empty list every
  bucket is \<open>(0, 0)\<close> and both GPA strings are \<open>"0.00"\<close>.
\<close>

theorem gpa_zero_guard:
  assumes "ordinary_credits cs"
  shows "earnedCredits (compute_pools cs) = foldl fadd 0 (map credits (earned_pool cs))
   \<and> earnedPoints (compute_pools cs) = foldl fadd 0 (map weighted (earned_pool cs))
   \<and> projectedCredits (compute_pools cs) = foldl fadd 0 (map credits (projected_pool cs))
   \<and> projectedPoints (compute_pools cs) = foldl fadd 0 (map weighted (projected_pool cs))
   \<and> (earnedCredits (compute_pools cs) = 0 \<longrightarrow> currentGPA (computeProgress cs r) = ''0.00'')
   \<and> (earnedCredits (compute_pools cs) \<noteq> 0 \<longrightarrow>
        (\<exists>v. two_decimals (currentGPA (computeProgress cs r)) = Some v
           \<and> v - 1 / 200
               \<le> round53 (earnedPoints (compute_pools cs) / earnedCredits (compute_pools cs))
           \<and> round53 (earnedPoints (compute_pools cs) / earnedCredits (compute_pools cs))
               < v + 1 / 200))
   \<and> (fadd (earnedCredits (compute_pools cs)) (projectedCredits (compute_pools cs)) = 0 \<longrightarrow>
        projectedGPA (computeProgress cs r) = ''0.00'')
   \<and> (fadd (earnedCredits (compute_pools cs)) (projectedCredits (compute_pools cs)) \<noteq> 0 \<longrightarrow>
        (\<exists>v. two_decimals (projectedGPA (computeProgress cs r)) = Some v
           \<and> v - 1 / 200
               \<le> round53 (fadd (earnedPoints (compute_pools cs)) (projectedPoints (compute_pools cs))
                   / fadd (earnedCredits (compute_pools cs)) (projectedCredits (compute_pools cs)))
           \<and> round53 (fadd (earnedPoints (compute_pools cs)) (projectedPoints (compute_pools cs))
                 / fadd (earnedCredits (compute_pools cs)) (projectedCredits (compute_pools cs)))
               < v + 1 / 200))
   \<and> computeProgress [] r =
       \<lparr>totals =
          \<lparr>total = \<lparr>earned = 0, projected = 0\<rparr>,
           commonRequired = \<lparr>earned = 0, projected = 0\<rparr>,
           deptRequired = \<lparr>earned = 0, projected = 0\<rparr>,
           designatedElective = \<lparr>earned = 0, projected = 0\<rparr>,
           generalElective = \<lparr>earned = 0, projected = 0\<rparr>,
           generalEducation = \<lparr>earned = 0, projected = 0\<rparr>\<rparr>,
        currentGPA = ''0.00'', projectedGPA = ''0.00''\<rparr>"
proof -
  define ec where "ec = earnedCredits (compute_pools cs)"
  define ep where "ep = earnedPoints (compute_pools cs)"
  define pc where "pc = projectedCredits (compute_pools cs)"
  define pp where "pp = projectedPoints (compute_pools cs)"
  have ec0: "0 \<le> ec" and ep0: "0 \<le> ep" and pc0: "0 \<le> pc" and pp0: "0 \<le> pp"
    by (simp_all add: ec_def ep_def pc_def pp_def earnedCredits_nonneg earnedPoints_nonneg
          projectedCredits_nonneg projectedPoints_nonneg)
  have tc0: "0 \<le> fadd ec pc" and tp0: "0 \<le> fadd ep pp"
    using ec0 ep0 pc0 pp0 by (simp_all add: fadd_nonneg)
  have cur: "currentGPA (computeProgress cs r) = gpa_string ep ec"
    and pro: "projectedGPA (computeProgress cs r) = gpa_string (fadd ep pp) (fadd ec pc)"
    by (simp_all add: computeProgress_def Let_def ec_def ep_def pc_def pp_def)
  have pools: "ec = foldl fadd 0 (map credits (earned_pool cs))"
    "ep = foldl fadd 0 (map weighted (earned_pool cs))"
    "pc = foldl fadd 0 (map credits (projected_pool cs))"
    "pp = foldl fadd 0 (map weighted (projected_pool cs))"
    by (simp_all add: ec_def ep_def pc_def pp_def compute_pools_def no_pools_def
          earnedCredits_foldl earnedPoints_foldl projectedCredits_foldl projectedPoints_foldl)
  have c0: "ec = 0 \<longrightarrow> currentGPA (computeProgress cs r) = ''0.00''"
    by (simp add: cur gpa_string_guard)
  have c1: "ec \<noteq> 0 \<longrightarrow> (\<exists>v. two_decimals (currentGPA (computeProgress cs r)) = Some v
      \<and> v - 1 / 200 \<le> round53 (ep / ec) \<and> round53 (ep / ec) < v + 1 / 200)"
  proof
    assume "ec \<noteq> 0"
    then have "0 < ec" using ec0 by simp
    then show "\<exists>v. two_decimals (currentGPA (computeProgress cs r)) = Some v
      \<and> v - 1 / 200 \<le> round53 (ep / ec) \<and> round53 (ep / ec) < v + 1 / 200"
      unfolding cur using ep0 by (rule gpa_string_two_decimals)
  qed
  have p0: "fadd ec pc = 0 \<longrightarrow> projectedGPA (computeProgress cs r) = ''0.00''"
    by (simp add: pro gpa_string_guard)
  have p1: "fadd ec pc \<noteq> 0 \<longrightarrow> (\<exists>v. two_decimals (projectedGPA (computeProgress cs r)) = Some v
      \<and> v - 1 / 200 \<le> round53 (fadd ep pp / fadd ec pc)
      \<and> round53 (fadd ep pp / fadd ec pc) < v + 1 / 200)"
  proof
    assume "fadd ec pc \<noteq> 0"
    then have "0 < fadd ec pc" using tc0 by simp
    then show "\<exists>v. two_decimals (projectedGPA (computeProgress cs r)) = Some v
      \<and> v - 1 / 200 \<le> round53 (fadd ep pp / fadd ec pc)
      \<and> round53 (fadd ep pp / fadd ec pc) < v + 1 / 200"
      unfolding pro using tp0 by (rule gpa_string_two_decimals)
  qed
  have empty: "computeProgress [] r =
       \<lparr>totals =
          \<lparr>total = \<lparr>earned = 0, projected = 0\<rparr>,
           commonRequired = \<lparr>earned = 0, projected = 0\<rparr>,
           deptRequired = \<lparr>earned = 0, projected = 0\<rparr>,
           designatedElective = \<lparr>earned = 0, projected = 0\<rparr>,
           generalElective = \<lparr>earned = 0, projected = 0\<rparr>,
           generalEducation = \<lparr>earned = 0, projected = 0\<rparr>\<rparr>,
        currentGPA = ''0.00'', projectedGPA = ''0.00''\<rparr>"
    by (simp add: computeProgress_def compute_pools_def compute_totals_def no_pools_def
          gpa_string_guard initialAcc_def fadd_def round53_def)
  show ?thesis
    unfolding ec_def [symmetric] ep_def [symmetric] pc_def [symmetric] pp_def [symmetric]
    using pools c0 c1 p0 p1 empty by (intro conjI)
qed

lemma three_courses_ordinary: "ordinary_credits three_courses" "ordinary_credits []"
  by (simp_all add: ordinary_credits_def three_courses_def small_credits_ordinary)

lemma three_courses_pools:
  "earnedCredits (compute_pools three_courses) = 4"
  "projectedCredits (compute_pools three_courses) = 0"
  "earnedCredits (compute_pools []) = 0"
  "projectedCredits (compute_pools []) = 0"
  "fadd 4 0 = 4" "fadd 0 0 = 0"
  by code_simp+

lemma three_courses_gpa:
  "currentGPA (computeProgress three_courses ACCOUNTING_111_REQUIREMENTS) = ''3.93''"
  by code_simp

lemma three_courses_permuted_gpa:
  "currentGPA (computeProgress three_courses_permuted ACCOUNTING_111_REQUIREMENTS) = ''3.92''"
  by code_simp

lemma value_of_393: "two_decimals ''3.93'' = Some (393 / 100)"
  by code_simp

theorem gpa_zero_guard_witness:
  "ordinary_credits three_courses
   \<and> earnedCredits (compute_pools three_courses) \<noteq> 0
   \<and> fadd (earnedCredits (compute_pools three_courses))
        (projectedCredits (compute_pools three_courses)) \<noteq> 0
   \<and> currentGPA (computeProgress three_courses ACCOUNTING_111_REQUIREMENTS) = ''3.93''
   \<and> 393 / 100 - 1 / 200
       \<le> round53 (earnedPoints (compute_pools three_courses)
            / earnedCredits (compute_pools three_courses))
   \<and> round53 (earnedPoints (compute_pools three_courses)
         / earnedCredits (compute_pools three_courses)) < 393 / 100 + 1 / 200
   \<and> ordinary_credits []
   \<and> earnedCredits (compute_pools []) = 0
   \<and> fadd (earnedCredits (compute_pools [])) (projectedCredits (compute_pools [])) = 0
   \<and> currentGPA (computeProgress [] ACCOUNTING_111_REQUIREMENTS) = ''0.00''
   \<and> projectedGPA (computeProgress [] ACCOUNTING_111_REQUIREMENTS) = ''0.00''"
proof -
  note a = gpa_zero_guard [OF three_courses_ordinary(1), of ACCOUNTING_111_REQUIREMENTS]
  note b = gpa_zero_guard [OF three_courses_ordinary(2), of ACCOUNTING_111_REQUIREMENTS]
  have n: "earnedCredits (compute_pools three_courses) \<noteq> 0"
    "fadd (earnedCredits (compute_pools three_courses))
       (projectedCredits (compute_pools three_courses)) \<noteq> 0"
    by (simp_all add: three_courses_pools)
  have z: "earnedCredits (compute_pools []) = 0"
    "fadd (earnedCredits (compute_pools [])) (projectedCredits (compute_pools [])) = 0"
    by (simp_all add: three_courses_pools)
  from a n(1) obtain v where
    v: "two_decimals (currentGPA (computeProgress three_courses ACCOUNTING_111_REQUIREMENTS))
          = Some v"
      "v - 1 / 200 \<le> round53 (earnedPoints (compute_pools three_courses)
          / earnedCredits (compute_pools three_courses))"
      "round53 (earnedPoints (compute_pools three_courses)
          / earnedCredits (compute_pools three_courses)) < v + 1 / 200"
    by blast
  have "v = 393 / 100"
    using v(1) by (simp add: three_courses_gpa value_of_393)
  then have near: "393 / 100 - 1 / 200
       \<le> round53 (earnedPoints (compute_pools three_courses)
            / earnedCredits (compute_pools three_courses))"
     "round53 (earnedPoints (compute_pools three_courses)
         / earnedCredits (compute_pools three_courses)) < 393 / 100 + 1 / 200"
    using v(2,3) by simp_all
  from b z have "currentGPA (computeProgress [] ACCOUNTING_111_REQUIREMENTS) = ''0.00''"
    "projectedGPA (computeProgress [] ACCOUNTING_111_REQUIREMENTS) = ''0.00''"
    by blast+
  then show ?thesis
    using three_courses_ordinary n z three_courses_gpa near by (intro conjI)
qed

lemma three_courses_perm: "mset three_courses_permuted = mset three_courses"
  by (simp add: three_courses_def three_courses_permuted_def)

text \<open>
  C7, the counterexample. The points of a pool are added up in list order in double
  arithmetic: the courses (\<open>A+\<close>, 1 credit), (\<open>A\<close>, 1 credit), (\<open>A-\<close>, 2 credits) give
  \<open>4.3 + 4 + 7.4 = 15.700000000000001\<close> and the GPA \<open>"3.93"\<close>, and in the order
  \<open>A+\<close>, \<open>A-\<close>, \<open>A\<close> they give \<open>4.3 + 7.4 + 4 = 15.7\<close> and the GPA \<open>"3.92"\<close>.
\<close>

theorem gpa_depends_on_order:
  "mset three_courses_permuted = mset three_courses \<and>
   currentGPA (computeProgress three_courses ACCOUNTING_111_REQUIREMENTS) \<noteq>
   currentGPA (computeProgress three_courses_permuted ACCOUNTING_111_REQUIREMENTS)"
  by (simp add: three_courses_perm three_courses_gpa three_courses_permuted_gpa)

text \<open>
  C7, as the program has it. The report is computed from the course list alone, whatever
  the requirements. When every credit is an integer and the magnitudes of all credits
  together are at most \<open>2 ^ 53\<close>, a permutation of the list leaves all bucket sums, both
  totals and the credit weights of the two GPA pools as they are; whether a GPA is the
  guarded \<open>"0.00"\<close> is therefore the same too. The GPA strings themselves are left out:
  they follow the order of the list.
\<close>

theorem permutation_credit_sums:
  assumes "mset cs = mset cs'" and "modest_credits cs"
  shows "totals (computeProgress cs r) = totals (computeProgress cs' r)
   \<and> earnedCredits (compute_pools cs) = earnedCredits (compute_pools cs')
   \<and> projectedCredits (compute_pools cs) = projectedCredits (compute_pools cs')
   \<and> computeProgress cs r = computeProgress cs r'"
proof -
  have m: "modest_credits cs'" using assms by (rule modest_credits_perm)
  have "totals (computeProgress cs r) = totals (computeProgress cs' r)"
    unfolding totals_computeProgress using assms by (rule compute_totals_perm)
  moreover have "earnedCredits (compute_pools cs) = earnedCredits (compute_pools cs')"
    unfolding earnedCredits_sum [OF assms(2)] earnedCredits_sum [OF m] earned_pool_def
    using assms(1) by (rule sum_filter_perm)
  moreover have "projectedCredits (compute_pools cs) = projectedCredits (compute_pools cs')"
    unfolding projectedCredits_sum [OF assms(2)] projectedCredits_sum [OF m] projected_pool_def
    using assms(1) by (rule sum_filter_perm)
  moreover have "computeProgress cs r = computeProgress cs r'"
    by (simp add: computeProgress_def)
  ultimately show ?thesis by (intro conjI)
qed

lemma three_courses_modest: "modest_credits three_courses_permuted"
  by code_simp

theorem permutation_credit_sums_witness:
  "mset three_courses_permuted = mset three_courses
   \<and> modest_credits three_courses_permuted
   \<and> totals (computeProgress three_courses_permuted ACCOUNTING_111_REQUIREMENTS) =
       totals (computeProgress three_courses ACCOUNTING_111_REQUIREMENTS)
   \<and> earnedCredits (compute_pools three_courses_permuted) =
       earnedCredits (compute_pools three_courses)"
  using permutation_credit_sums [OF three_courses_perm three_courses_modest,
      of ACCOUNTING_111_REQUIREMENTS ACCOUNTING_111_REQUIREMENTS]
    three_courses_perm three_courses_modest
  by (intro conjI) simp_all

section \<open>The tokens of a semester label\<close>

lemma split_nondigit_not_Nil: "split_nondigit s \<noteq> []"
  by (induction s) (auto split: list.splits)

lemma semester_numbers_skip: "\<not> is_digit c \<Longrightarrow> semester_numbers (c # s) = semester_numbers s"
  by (simp add: semester_numbers_def parseInt10_def)

lemma semester_numbers_dropWhile:
  "semester_numbers (dropWhile (\<lambda>c. \<not> is_digit c) s) = semester_numbers s"
  by (induction s) (simp_all add: semester_numbers_skip)

lemma split_digits_append:
  "\<forall>c\<in>set ds. is_digit c \<Longrightarrow>
   split_nondigit (ds @ rest) = (ds @ hd (split_nondigit rest)) # tl (split_nondigit rest)"
  using split_nondigit_not_Nil [of rest]
  by (induction ds) (auto split: list.splits)

lemma split_after_run:
  "rest = [] \<or> \<not> is_digit (hd rest) \<Longrightarrow>
   hd (split_nondigit rest) = [] \<and>
   List.map_filter parseInt10 (tl (split_nondigit rest)) = semester_numbers rest"
  by (cases rest) (auto simp: semester_numbers_def parseInt10_def)

lemma semester_numbers_run:
  assumes "ds \<noteq> []" "\<forall>c\<in>set ds. is_digit c" "rest = [] \<or> \<not> is_digit (hd rest)"
  shows "semester_numbers (ds @ rest) = round53 (of_nat (decimal ds)) # semester_numbers rest"
  using split_after_run [OF assms(3)] assms(1)
  by (simp add: semester_numbers_def split_digits_append [OF assms(2)] parseInt10_def)

text \<open>The numbers of a label are the doubles nearest to what its runs of digits write.\<close>

lemma semester_numbers_digit_runs:
  "semester_numbers s = map (\<lambda>t. round53 (of_nat (decimal t))) (digit_runs s)"
proof (induction s rule: digit_runs.induct)
  case (1 s)
  show ?case
  proof (cases "dropWhile (\<lambda>c. \<not> is_digit c) s")
    case Nil
    have runs: "digit_runs s = []"
      by (subst digit_runs.simps) (simp only: Nil list.case)
    have "semester_numbers s = semester_numbers []"
      using semester_numbers_dropWhile [of s] by (simp only: Nil)
    also have "\<dots> = []"
      by (simp add: semester_numbers_def parseInt10_def)
    finally show ?thesis by (simp only: runs list.map)
  next
    case (Cons d r)
    define ds where "ds = takeWhile is_digit (d # r)"
    define rest where "rest = dropWhile is_digit (d # r)"
    have d: "is_digit d" using Cons by (simp add: dropWhile_eq_Cons_conv)
    have ds: "ds \<noteq> []" "\<forall>c\<in>set ds. is_digit c"
      using d by (auto simp: ds_def dest: set_takeWhileD)
    have rest: "rest = [] \<or> \<not> is_digit (hd rest)"
      unfolding rest_def using hd_dropWhile [of is_digit "d # r"] by blast
    have split: "d # r = ds @ rest" by (simp add: ds_def rest_def)
    have "semester_numbers s = semester_numbers (d # r)"
      using semester_numbers_dropWhile [of s] Cons by simp
    also have "\<dots> = round53 (of_nat (decimal ds)) # semester_numbers rest"
      unfolding split by (rule semester_numbers_run [OF ds rest])
    also have "semester_numbers rest =
        map (\<lambda>t. round53 (of_nat (decimal t))) (digit_runs rest)"
      unfolding rest_def by (rule "1.IH" [OF Cons])
    finally have "semester_numbers s =
        round53 (of_nat (decimal ds)) # map (\<lambda>t. round53 (of_nat (decimal t))) (digit_runs rest)" .
    moreover have "digit_runs s = ds # digit_runs rest"
      unfolding ds_def rest_def by (subst digit_runs.simps) (simp only: Cons list.case)
    ultimately show ?thesis by (simp only: list.map)
  qed
qed

lemma digit_runs_digits: "t \<in> set (digit_runs s) \<Longrightarrow> \<forall>c\<in>set t. is_digit c"
proof (induction s rule: digit_runs.induct)
  case (1 s)
  show ?case
  proof (cases "dropWhile (\<lambda>c. \<not> is_digit c) s")
    case Nil
    have "digit_runs s = []"
      by (subst digit_runs.simps) (simp only: Nil list.case)
    then show ?thesis using "1.prems" by simp
  next
    case (Cons d r)
    have runs: "digit_runs s =
        takeWhile is_digit (d # r) # digit_runs (dropWhile is_digit (d # r))"
      by (subst digit_runs.simps) (simp only: Cons list.case)
    from "1.prems" consider "t = takeWhile is_digit (d # r)"
      | "t \<in> set (digit_runs (dropWhile is_digit (d # r)))"
      unfolding runs by auto
    then show ?thesis
    proof cases
      case 1
      then show ?thesis by (auto dest: set_takeWhileD)
    next
      case 2
      then show ?thesis by (rule "1.IH" [OF Cons])
    qed
  qed
qed

text \<open>A run of at most 15 digits writes a number below \<open>2 ^ 53\<close>.\<close>

lemma decimal_bound:
  "\<forall>c\<in>set t. is_digit c \<Longrightarrow>
   foldl (\<lambda>n c. 10 * n + (of_char c - 48)) a t + 1 \<le> ((a :: nat) + 1) * 10 ^ length t"
proof (induction t arbitrary: a)
  case Nil
  then show ?case by simp
next
  case (Cons c t)
  have "is_digit c" using Cons.prems by simp
  then have "(of_char c :: nat) \<le> 57" by (simp add: is_digit_def)
  then have c: "(of_char c :: nat) - 48 \<le> 9" by linarith
  have "foldl (\<lambda>n c. 10 * n + (of_char c - 48)) (10 * a + (of_char c - 48)) t + 1
      \<le> (10 * a + (of_char c - 48) + 1) * 10 ^ length t"
    using Cons.prems by (intro Cons.IH) simp
  also have "\<dots> \<le> (10 * a + 10) * 10 ^ length t"
    using c by (intro mult_le_mono1) simp
  also have "\<dots> = (a + 1) * 10 ^ length (c # t)"
    by (simp add: algebra_simps)
  finally show ?case by simp
qed

lemma decimal_less: "\<forall>c\<in>set t. is_digit c \<Longrightarrow> decimal t < 10 ^ length t"
  using decimal_bound [of t 0] by (simp add: decimal_def)

lemma short_run:
  assumes "\<forall>c\<in>set t. is_digit c" "length t \<le> 15"
  shows "decimal t \<le> 2 ^ 53"
proof -
  have "decimal t < 10 ^ length t" using assms(1) by (rule decimal_less)
  also have "(10 :: nat) ^ length t \<le> 10 ^ 15"
    using assms(2) by (intro power_increasing) simp_all
  also have "(10 :: nat) ^ 15 \<le> 2 ^ 53" by simp
  finally show ?thesis by simp
qed

lemma plain_run:
  assumes "plain_label s" "t \<in> set (digit_runs s)"
  shows "decimal t \<le> 2 ^ 53"
proof -
  have "length t \<le> 15"
    using assms by (simp add: plain_label_def list_all_iff)
  with digit_runs_digits [OF assms(2)] show ?thesis by (rule short_run)
qed

lemma plain_numbers:
  assumes "plain_label s"
  shows "semester_numbers s = map (\<lambda>t. of_nat (decimal t)) (digit_runs s)"
  unfolding semester_numbers_digit_runs
proof (rule map_cong [OF refl])
  fix t
  assume "t \<in> set (digit_runs s)"
  with assms have "decimal t \<le> 2 ^ 53" by (rule plain_run)
  then show "round53 (of_nat (decimal t)) = of_nat (decimal t)"
    by (rule round53_nat_exact)
qed

lemma plain_year:
  assumes "plain_label s"
  shows "year_of s = of_nat (year_written s)" and "year_written s \<le> 2 ^ 53"
proof -
  show "year_of s = of_nat (year_written s)"
    by (simp add: year_of_def or_zero_def plain_numbers [OF assms] year_written_def
          split: list.splits)
  show "year_written s \<le> 2 ^ 53"
    using plain_run [OF assms] by (simp add: year_written_def split: list.splits)
qed

lemma plain_term:
  assumes "plain_label s"
  shows "term_of s = of_nat (term_written s)" and "term_written s \<le> 2 ^ 53"
proof -
  show "term_of s = of_nat (term_written s)"
    by (simp add: term_of_def or_zero_def plain_numbers [OF assms] term_written_def
          split: list.splits)
  show "term_written s \<le> 2 ^ 53"
    using plain_run [OF assms] by (simp add: term_written_def split: list.splits)
qed

lemma digit_runs_no_digit:
  assumes "\<forall>c\<in>set s. \<not> is_digit c"
  shows "digit_runs s = []"
proof -
  have "dropWhile (\<lambda>c. \<not> is_digit c) s = []"
    using assms by simp
  then show ?thesis
    by (subst digit_runs.simps) (simp only: list.case)
qed

lemma no_digit_zero:
  assumes "\<forall>c\<in>set s. \<not> is_digit c"
  shows "year_of s = 0 \<and> term_of s = 0"
  using digit_runs_no_digit [OF assms]
  by (simp add: year_of_def term_of_def or_zero_def semester_numbers_digit_runs)

text \<open>
  On a label that starts with a digit, and on a label with no digit, the numbers written
  are those of the parse in the words of the specification.
\<close>

lemma digit_runs_leading_digit:
  assumes "is_digit d"
  shows "digit_runs (d # r) = takeWhile is_digit (d # r) # digit_runs (dropWhile is_digit (d # r))"
proof -
  have "dropWhile (\<lambda>c. \<not> is_digit c) (d # r) = d # r"
    using assms by simp
  then show ?thesis
    by (subst digit_runs.simps) (simp only: list.case)
qed

lemma first_run_of_digit_runs:
  "(case digit_runs s of [] \<Rightarrow> 0 | t # ts \<Rightarrow> decimal t) =
     spec_number (dropWhile (\<lambda>c. \<not> is_digit c) s)"
proof (cases "dropWhile (\<lambda>c. \<not> is_digit c) s")
  case Nil
  have "digit_runs s = []"
    by (subst digit_runs.simps) (simp only: Nil list.case)
  then show ?thesis
    by (simp only: Nil) (simp add: spec_number_def)
next
  case (Cons d r)
  have d: "is_digit d" using Cons by (simp add: dropWhile_eq_Cons_conv)
  have "digit_runs s =
      takeWhile is_digit (d # r) # digit_runs (dropWhile is_digit (d # r))"
    by (subst digit_runs.simps) (simp only: Cons list.case)
  then show ?thesis
    using d by (simp only: Cons) (simp add: spec_number_def)
qed

lemma spec_parse_leading_digit:
  assumes "is_digit d"
  shows "year_written (d # r) = spec_year (d # r) \<and> term_written (d # r) = spec_term (d # r)"
proof -
  have runs: "digit_runs (d # r) =
      takeWhile is_digit (d # r) # digit_runs (dropWhile is_digit (d # r))"
    using assms by (rule digit_runs_leading_digit)
  have "year_written (d # r) = decimal (takeWhile is_digit (d # r))"
    by (simp only: year_written_def runs list.case)
  moreover have "spec_year (d # r) = decimal (takeWhile is_digit (d # r))"
    using assms by (simp add: spec_year_def spec_tokens_def spec_number_def)
  moreover have "term_written (d # r) =
      (case digit_runs (dropWhile is_digit (d # r)) of [] \<Rightarrow> 0 | t # ts \<Rightarrow> decimal t)"
    by (simp only: term_written_def runs) (simp split: list.splits)
  moreover have "spec_term (d # r) =
      spec_number (dropWhile (\<lambda>c. \<not> is_digit c) (dropWhile is_digit (d # r)))"
    by (simp add: spec_term_def spec_tokens_def)
  ultimately show ?thesis
    by (simp only: first_run_of_digit_runs)
qed

lemma spec_parse_no_digit:
  assumes "\<forall>c\<in>set s. \<not> is_digit c"
  shows "year_written s = spec_year s \<and> term_written s = spec_term s"
proof -
  have "digit_runs s = []" using assms by (rule digit_runs_no_digit)
  then have code: "year_written s = 0" "term_written s = 0"
    by (simp_all add: year_written_def term_written_def)
  have tw: "takeWhile is_digit s = []" and dw: "dropWhile is_digit s = s"
    using assms by (cases s; simp)+
  have dn: "dropWhile (\<lambda>c. \<not> is_digit c) s = []"
    using assms by simp
  have zero: "spec_number [] = 0"
    by (simp add: spec_number_def)
  have "spec_year s = 0"
    by (simp only: spec_year_def spec_tokens_def fst_conv tw zero)
  moreover have "spec_term s = 0"
    by (simp only: spec_term_def spec_tokens_def snd_conv dw dn zero)
  ultimately show ?thesis using code by simp
qed

lemma spec_parse_agrees:
  "(s \<noteq> [] \<and> is_digit (hd s)) \<or> (\<forall>c\<in>set s. \<not> is_digit c) \<Longrightarrow>
   year_written s = spec_year s \<and> term_written s = spec_term s"
  using spec_parse_leading_digit [of "hd s" "tl s"] spec_parse_no_digit [of s]
  by (cases s) auto

section \<open>The comparator\<close>

text \<open>On plain labels the differences of the comparator are exact.\<close>

lemma compareSemesters_plain:
  assumes "plain_label s" "plain_label t"
  shows "compareSemesters s t =
     (if year_written s \<noteq> year_written t
      then of_int (int (year_written s) - int (year_written t))
      else of_int (int (term_written s) - int (term_written t)))"
  by (simp add: compareSemesters_def Let_def plain_year(1) [OF assms(1)]
        plain_year(1) [OF assms(2)] plain_term(1) [OF assms(1)] plain_term(1) [OF assms(2)]
        fsub_nat_exact [OF plain_year(2) [OF assms(1)] plain_year(2) [OF assms(2)]]
        fsub_nat_exact [OF plain_term(2) [OF assms(1)] plain_term(2) [OF assms(2)]])

lemma compareForDisplay_plain:
  assumes "plain_label (semester a)" "plain_label (semester b)"
  shows "compareForDisplay lc a b =
     of_int (if year_written (semester a) \<noteq> year_written (semester b)
        then int (year_written (semester a)) - int (year_written (semester b))
        else if term_written (semester a) \<noteq> term_written (semester b)
        then int (term_written (semester a)) - int (term_written (semester b))
        else lc (name a) (name b))"
  by (simp add: compareForDisplay_def Let_def compareSemesters_plain [OF assms])

lemma compareForDisplay_less:
  assumes "plain_label (semester a)" "plain_label (semester b)"
  shows "compareForDisplay lc a b < 0 \<longleftrightarrow>
     year_written (semester a) < year_written (semester b)
     \<or> year_written (semester a) = year_written (semester b)
       \<and> (term_written (semester a) < term_written (semester b)
          \<or> term_written (semester a) = term_written (semester b) \<and> lc (name a) (name b) < 0)"
  unfolding compareForDisplay_plain [OF assms] of_int_less_0_iff by auto

lemma compareForDisplay_greater:
  assumes "plain_label (semester a)" "plain_label (semester b)"
  shows "0 < compareForDisplay lc a b \<longleftrightarrow>
     year_written (semester b) < year_written (semester a)
     \<or> year_written (semester a) = year_written (semester b)
       \<and> (term_written (semester b) < term_written (semester a)
          \<or> term_written (semester a) = term_written (semester b) \<and> 0 < lc (name a) (name b))"
  unfolding compareForDisplay_plain [OF assms] of_int_0_less_iff by auto

lemma compareForDisplay_equal:
  assumes "plain_label (semester a)" "plain_label (semester b)"
  shows "compareForDisplay lc a b = 0 \<longleftrightarrow>
     year_written (semester a) = year_written (semester b)
     \<and> term_written (semester a) = term_written (semester b) \<and> lc (name a) (name b) = 0"
  unfolding compareForDisplay_plain [OF assms] of_int_eq_0_iff by auto

text \<open>The sort permutes the list and never moves an element behind one it may precede.\<close>

lemma mset_insert_by: "mset (insert_by cmp x ys) = add_mset x (mset ys)"
  by (induction ys) simp_all

lemma mset_sort_by: "mset (sort_by cmp xs) = mset xs"
  by (induction xs) (simp_all add: sort_by_def mset_insert_by)

lemma set_insert_by: "set (insert_by cmp x ys) = insert x (set ys)"
  by (induction ys) auto

lemma set_sort_by: "set (sort_by cmp xs) = set xs"
  by (induction xs) (simp_all add: sort_by_def set_insert_by)

lemma occurs_before_insert_other:
  "occurs_before a b ys \<Longrightarrow> occurs_before a b (insert_by cmp x ys)"
  by (induction ys) (auto simp: set_insert_by)

lemma occurs_before_insert_self:
  "cmp x y \<le> 0 \<Longrightarrow> y \<in> set ys \<Longrightarrow> occurs_before x y (insert_by cmp x ys)"
  by (induction ys) auto

lemma sort_by_stable:
  "cmp a b \<le> 0 \<Longrightarrow> occurs_before a b xs \<Longrightarrow> occurs_before a b (sort_by cmp xs)"
proof (induction xs)
  case Nil
  then show ?case by simp
next
  case (Cons x xs)
  have step: "sort_by cmp (x # xs) = insert_by cmp x (sort_by cmp xs)"
    by (simp add: sort_by_def)
  from Cons.prems(2) consider "x = a" "b \<in> set xs" | "occurs_before a b xs"
    by auto
  then show ?case
  proof cases
    case 1
    then show ?thesis
      unfolding step using Cons.prems(1)
      by (simp add: occurs_before_insert_self set_sort_by)
  next
    case 2
    then show ?thesis
      unfolding step using Cons.IH Cons.prems(1)
      by (simp add: occurs_before_insert_other)
  qed
qed

lemma example_labels:
  "year_of ''111-2'' = 111" "term_of ''111-2'' = 2"
  "year_of ''111-1'' = 111" "term_of ''111-1'' = 1"
  "year_of ''112-1'' = 112" "term_of ''112-1'' = 1"
  "year_of ''109'' = 109" "term_of ''109'' = 0"
  "year_of ''111/1'' = 111" "term_of ''111/1'' = 1"
  "year_of ''Y111-2'' = 111" "term_of ''Y111-2'' = 2"
  "year_of ''Y111-1'' = 111" "term_of ''Y111-1'' = 1"
  by code_simp+

lemma example_differences:
  "fsub 111 111 = 0" "fsub 2 1 = 1" "fsub 1 2 = - 1" "fsub 1 1 = 0" "fsub 2 2 = 0"
  "fsub 111 112 = - 1" "fsub 112 111 = 1" "fsub 111 109 = 2" "fsub 109 111 = - 2"
  "fsub 112 109 = 3" "fsub 109 112 = - 3" "fsub 1 0 = 1" "fsub 0 1 = - 1"
  by code_simp+

lemma example_spec_labels:
  "spec_year ''Y111-2'' = 0" "spec_term ''Y111-2'' = 111"
  "spec_year ''Y111-1'' = 0" "spec_term ''Y111-1'' = 111"
  by code_simp+

lemma example_plain_labels:
  "plain_label ''111-2''" "plain_label ''111-1''" "plain_label ''112-1''" "plain_label ''109''"
  "plain_label ''111/1''" "plain_label ''Y111-2''" "plain_label ''Y111-1''" "plain_label ''TBA''"
  by code_simp+

lemma sort_example:
  "map semester (sort_courses lc
     [c1\<lparr>semester := ''111-2''\<rparr>, c2\<lparr>semester := ''111-1''\<rparr>,
      c3\<lparr>semester := ''112-1''\<rparr>, c4\<lparr>semester := ''109''\<rparr>])
   = [''109'', ''111-1'', ''111-2'', ''112-1'']"
  by (simp add: sort_courses_def sort_by_def compareForDisplay_def compareSemesters_def
        example_labels example_differences)

text \<open>
  Beyond the plain labels the numbers are rounded: two labels that write different years
  above \<open>2 ^ 53\<close> compare equal.
\<close>

lemma long_runs:
  "digit_runs ''9007199254740993'' = [''9007199254740993'']"
  "digit_runs ''9007199254740992'' = [''9007199254740992'']"
  by (simp_all add: digit_runs_leading_digit digit_runs_no_digit is_digit_def)

lemma long_decimals:
  "decimal ''9007199254740993'' = 9007199254740993"
  "decimal ''9007199254740992'' = 9007199254740992"
  by (simp_all add: decimal_def)

lemma long_rounded:
  "round53 9007199254740993 = 9007199254740992"
  "round53 9007199254740992 = 9007199254740992"
  "fsub 0 0 = 0"
  by code_simp+

lemma long_labels_collide:
  "year_written ''9007199254740993'' \<noteq> year_written ''9007199254740992''"
  "compareSemesters ''9007199254740993'' ''9007199254740992'' = 0"
  by (simp_all add: year_written_def compareSemesters_def year_of_def term_of_def or_zero_def
        semester_numbers_digit_runs long_runs long_decimals long_rounded)

section \<open>Claims about the ordering and the update\<close>

text \<open>
  C8, the counterexample. A label that starts with a character that is not a digit has
  an empty first token in the words of the specification: \<open>"Y111-2"\<close> and \<open>"Y111-1"\<close>
  both have the year 0 and the same second token, so the names would decide and
  \<open>Algebra\<close> would come before \<open>Calculus\<close>. The program drops the empty token, reads the
  year 111 and the terms 2 and 1, and puts the course of \<open>"Y111-1"\<close> first.
\<close>

theorem leading_separator_counterexample:
  "spec_year (semester prefixed_second_term) = spec_year (semester prefixed_first_term) \<and>
   spec_term (semester prefixed_second_term) = spec_term (semester prefixed_first_term) \<and>
   spec_year (semester prefixed_second_term) = 0 \<and>
   year_of (semester prefixed_second_term) = 111 \<and>
   term_of (semester prefixed_second_term) = 2 \<and>
   term_of (semester prefixed_first_term) = 1 \<and>
   byte_compare (name prefixed_second_term) (name prefixed_first_term) < 0 \<and>
   sort_courses byte_compare [prefixed_second_term, prefixed_first_term] =
     [prefixed_first_term, prefixed_second_term]"
  by (simp add: prefixed_second_term_def prefixed_first_term_def example_labels
        example_spec_labels sort_courses_def sort_by_def compareForDisplay_def
        compareSemesters_def example_differences)

text \<open>
  C8, as the program has it, on plain labels (no run of more than 15 digits). The numbers
  of a label are its maximal runs of digits, read in decimal: every character that is not
  a digit separates, also in front. The year is the first number and the term the
  second, 0 when there is none, and further numbers are ignored. The comparator orders by
  year, then by term, then by \<open>localeCompare\<close> on the names. The labels \<open>"111-2"\<close>,
  \<open>"111-1"\<close>, \<open>"112-1"\<close>, \<open>"109"\<close> sort as \<open>"109"\<close>, \<open>"111-1"\<close>, \<open>"111-2"\<close>, \<open>"112-1"\<close>, and
  a label with no digit has year 0 and term 0. The sort returns a permutation of the
  courses. On the labels that start with a digit or have no digit the year and the term
  are those of a split at the first run of characters that are not digits.
\<close>

theorem chronological_order:
  assumes "plain_label sem" and "plain_label (semester a)" and "plain_label (semester b)"
    and "list_all (\<lambda>c. plain_label (semester c)) cs"
  shows "semester_numbers sem = map (\<lambda>t. of_nat (decimal t)) (digit_runs sem)
   \<and> year_of sem = of_nat (year_written sem)
   \<and> term_of sem = of_nat (term_written sem)
   \<and> (compareForDisplay lc a b < 0 \<longleftrightarrow>
        year_written (semester a) < year_written (semester b)
        \<or> year_written (semester a) = year_written (semester b)
          \<and> (term_written (semester a) < term_written (semester b)
             \<or> term_written (semester a) = term_written (semester b)
               \<and> lc (name a) (name b) < 0))
   \<and> (0 < compareForDisplay lc a b \<longleftrightarrow>
        year_written (semester b) < year_written (semester a)
        \<or> year_written (semester a) = year_written (semester b)
          \<and> (term_written (semester b) < term_written (semester a)
             \<or> term_written (semester a) = term_written (semester b)
               \<and> 0 < lc (name a) (name b)))
   \<and> map semester (sort_courses lc
        [c1\<lparr>semester := ''111-2''\<rparr>, c2\<lparr>semester := ''111-1''\<rparr>,
         c3\<lparr>semester := ''112-1''\<rparr>, c4\<lparr>semester := ''109''\<rparr>])
      = [''109'', ''111-1'', ''111-2'', ''112-1'']
   \<and> mset (sort_courses lc cs) = mset cs
   \<and> ((\<forall>c\<in>set sem. \<not> is_digit c) \<longrightarrow> year_of sem = 0 \<and> term_of sem = 0)
   \<and> ((sem \<noteq> [] \<and> is_digit (hd sem)) \<or> (\<forall>c\<in>set sem. \<not> is_digit c) \<longrightarrow>
        year_written sem = spec_year sem \<and> term_written sem = spec_term sem)"
proof -
  have "(sem \<noteq> [] \<and> is_digit (hd sem)) \<or> (\<forall>c\<in>set sem. \<not> is_digit c) \<longrightarrow>
      year_written sem = spec_year sem \<and> term_written sem = spec_term sem"
    using spec_parse_agrees [of sem] by blast
  moreover have "mset (sort_courses lc cs) = mset cs"
    by (simp add: sort_courses_def mset_sort_by)
  moreover have "(\<forall>c\<in>set sem. \<not> is_digit c) \<longrightarrow> year_of sem = 0 \<and> term_of sem = 0"
    using no_digit_zero [of sem] by blast
  moreover note plain_numbers [OF assms(1)] plain_year(1) [OF assms(1)]
    plain_term(1) [OF assms(1)]
    compareForDisplay_less [OF assms(2,3), of lc]
    compareForDisplay_greater [OF assms(2,3), of lc]
    sort_example [of lc c1 c2 c3 c4]
  ultimately show ?thesis by (intro conjI)
qed

theorem chronological_order_witness:
  "plain_label ''TBA'' \<and> plain_label ''Y111-2'' \<and> plain_label ''111-2''
   \<and> plain_label (semester dash_course)
   \<and> list_all (\<lambda>c. plain_label (semester c)) [dash_course, slash_course]
   \<and> filter is_digit ''TBA'' = [] \<and> year_of ''TBA'' = 0 \<and> term_of ''TBA'' = 0
   \<and> semester_numbers ''Y111-2'' = [111, 2]
   \<and> is_digit (hd ''111-2'') \<and> spec_year ''111-2'' = 111 \<and> spec_term ''111-2'' = 2
   \<and> year_written ''111-2'' = 111 \<and> term_written ''111-2'' = 2
   \<and> compareForDisplay byte_compare dash_course (dash_course\<lparr>name := ''Algebra''\<rparr>) > 0
   \<and> mset (sort_courses byte_compare [dash_course, slash_course])
       = mset [dash_course, slash_course]"
proof -
  have plain: "plain_label (semester dash_course)"
    "plain_label (semester (dash_course\<lparr>name := ''Algebra''\<rparr>))"
    "list_all (\<lambda>c. plain_label (semester c)) [dash_course, slash_course]"
    by (simp_all add: dash_course_def slash_course_def example_plain_labels)
  have no_digit: "\<forall>c\<in>set ''TBA''. \<not> is_digit c" "filter is_digit ''TBA'' = []"
    by (simp_all add: is_digit_def)
  have runs: "map (\<lambda>t. of_nat (decimal t)) (digit_runs ''Y111-2'') = [111, 2 :: rat]"
    "year_written ''111-2'' = 111" "term_written ''111-2'' = 2"
    by code_simp+
  have names: "0 < byte_compare (name dash_course) (name (dash_course\<lparr>name := ''Algebra''\<rparr>))"
    by (simp add: dash_course_def)
  have digit: "is_digit (hd ''111-2'')"
    by (simp add: is_digit_def)
  note a = chronological_order [OF example_plain_labels(8) plain(1,2,3), of byte_compare]
  note b = chronological_order [OF example_plain_labels(6) plain(1,2,3), of byte_compare]
  note c = chronological_order [OF example_plain_labels(1) plain(1,2,3), of byte_compare]
  have "year_of ''TBA'' = 0 \<and> term_of ''TBA'' = 0"
    using a no_digit(1) by blast
  moreover have "semester_numbers ''Y111-2'' = [111, 2]"
    using b runs(1) by simp
  moreover have "spec_year ''111-2'' = 111 \<and> spec_term ''111-2'' = 2"
    using c digit runs(2,3) by simp
  moreover have "compareForDisplay byte_compare dash_course (dash_course\<lparr>name := ''Algebra''\<rparr>) > 0"
    using a names by simp
  moreover have "mset (sort_courses byte_compare [dash_course, slash_course])
       = mset [dash_course, slash_course]"
    using a by blast
  ultimately show ?thesis
    using example_plain_labels plain no_digit(2) digit runs(2,3) by (intro conjI) simp_all
qed

text \<open>
  C9, the counterexample. The labels \<open>"111-1"\<close> and \<open>"111/1"\<close> are different strings with
  the same year and term; two courses with these labels and the same name compare equal.
\<close>

theorem equal_with_different_labels:
  "compareForDisplay byte_compare dash_course slash_course = 0 \<and>
   semester dash_course \<noteq> semester slash_course \<and> name dash_course = name slash_course"
  by (simp add: compareForDisplay_def compareSemesters_def example_labels dash_course_def
        slash_course_def example_differences)

text \<open>
  C9, as the program has it, on plain labels. The comparator returns a number for every
  pair of courses, an integer. It returns 0 exactly when the two labels write the same
  year and the same term and \<open>localeCompare\<close> returns 0 on the names; the label strings
  need not be the same. Two courses that compare equal keep their order in the sort, in
  a list of any length.
\<close>

theorem equal_means_same_keys:
  assumes "plain_label (semester a)" and "plain_label (semester b)"
    and "list_all (\<lambda>c. plain_label (semester c)) cs"
  shows "(\<exists>n :: int. compareForDisplay lc a b = of_int n)
   \<and> (compareForDisplay lc a b = 0 \<longleftrightarrow>
      year_written (semester a) = year_written (semester b)
      \<and> term_written (semester a) = term_written (semester b) \<and> lc (name a) (name b) = 0)
   \<and> (compareForDisplay lc a b = 0 \<longrightarrow> sort_courses lc [a, b] = [a, b])
   \<and> (compareForDisplay lc a b = 0 \<longrightarrow> occurs_before a b cs \<longrightarrow>
        occurs_before a b (sort_courses lc cs))"
proof -
  have "\<exists>n :: int. compareForDisplay lc a b = of_int n"
    unfolding compareForDisplay_plain [OF assms(1,2)] by blast
  moreover have "compareForDisplay lc a b = 0 \<longrightarrow> sort_courses lc [a, b] = [a, b]"
    by (simp add: sort_courses_def sort_by_def)
  moreover have "compareForDisplay lc a b = 0 \<longrightarrow> occurs_before a b cs \<longrightarrow>
      occurs_before a b (sort_courses lc cs)"
    unfolding sort_courses_def using sort_by_stable [of "compareForDisplay lc" a b cs]
    by simp
  moreover note compareForDisplay_equal [OF assms(1,2), of lc]
  ultimately show ?thesis by (intro conjI)
qed

theorem equal_means_same_keys_witness:
  "plain_label (semester dash_course) \<and> plain_label (semester slash_course)
   \<and> list_all (\<lambda>c. plain_label (semester c)) [dash_course, prefixed_first_term, slash_course]
   \<and> compareForDisplay byte_compare dash_course slash_course = 0
   \<and> year_written (semester dash_course) = year_written (semester slash_course)
   \<and> term_written (semester dash_course) = term_written (semester slash_course)
   \<and> sort_courses byte_compare [dash_course, slash_course] = [dash_course, slash_course]
   \<and> occurs_before dash_course slash_course [dash_course, prefixed_first_term, slash_course]
   \<and> occurs_before dash_course slash_course
       (sort_courses byte_compare [dash_course, prefixed_first_term, slash_course])"
proof -
  have plain: "plain_label (semester dash_course)" "plain_label (semester slash_course)"
    "list_all (\<lambda>c. plain_label (semester c)) [dash_course, prefixed_first_term, slash_course]"
    by (simp_all add: dash_course_def slash_course_def prefixed_first_term_def
          example_plain_labels)
  have eq: "compareForDisplay byte_compare dash_course slash_course = 0"
    by (simp add: compareForDisplay_def compareSemesters_def example_labels dash_course_def
          slash_course_def example_differences)
  have before:
    "occurs_before dash_course slash_course [dash_course, prefixed_first_term, slash_course]"
    by simp
  note a = equal_means_same_keys [OF plain, of byte_compare]
  have "year_written (semester dash_course) = year_written (semester slash_course)
      \<and> term_written (semester dash_course) = term_written (semester slash_course)"
    using a eq by blast
  moreover have "sort_courses byte_compare [dash_course, slash_course] = [dash_course, slash_course]"
    using a eq by blast
  moreover have "occurs_before dash_course slash_course
       (sort_courses byte_compare [dash_course, prefixed_first_term, slash_course])"
    using a eq before by blast
  ultimately show ?thesis
    using plain eq before by (intro conjI) simp_all
qed

lemma update_other:
  "\<forall>c\<in>set cs. course_id c \<noteq> course_id u \<Longrightarrow> handleUpdateCourse u cs = cs"
  by (induction cs) (simp_all add: handleUpdateCourse_def)

lemma update_ids: "map course_id (handleUpdateCourse u cs) = map course_id cs"
  by (induction cs) (simp_all add: handleUpdateCourse_def)

text \<open>
  C10. The update keeps the length and the order of the list and the identifier at
  every position; it puts the updated course at the positions whose identifier is that of
  the updated course and leaves the other positions as they are. When no course has that
  identifier the list is returned as it is.
\<close>

theorem update_replaces_by_id:
  "length (handleUpdateCourse u cs) = length cs
   \<and> (\<forall>i<length cs. handleUpdateCourse u cs ! i =
         (if course_id (cs ! i) = course_id u then u else cs ! i))
   \<and> map course_id (handleUpdateCourse u cs) = map course_id cs
   \<and> ((\<forall>c\<in>set cs. course_id c \<noteq> course_id u) \<longrightarrow> handleUpdateCourse u cs = cs)"
proof -
  have "length (handleUpdateCourse u cs) = length cs"
    by (simp add: handleUpdateCourse_def)
  moreover have "\<forall>i<length cs. handleUpdateCourse u cs ! i =
         (if course_id (cs ! i) = course_id u then u else cs ! i)"
    by (simp add: handleUpdateCourse_def)
  ultimately show ?thesis
    using update_ids [of u cs] update_other [of cs u] by blast
qed

theorem update_replaces_by_id_witness:
  "course_id pe_course \<notin> set (map course_id three_courses) \<and>
   handleUpdateCourse pe_course three_courses = three_courses \<and>
   (1::nat) < length three_courses \<and>
   course_id (three_courses ! 1) = course_id edited_course \<and>
   handleUpdateCourse edited_course three_courses ! 1 = edited_course \<and>
   handleUpdateCourse edited_course three_courses ! 0 = three_courses ! 0 \<and>
   length (handleUpdateCourse edited_course three_courses) = 3"
proof -
  have ids: "\<forall>c\<in>set three_courses. course_id c \<noteq> course_id pe_course"
    by (simp add: three_courses_def pe_course_def)
  have notin: "course_id pe_course \<notin> set (map course_id three_courses)"
    by (simp add: three_courses_def pe_course_def)
  have len: "length three_courses = 3"
    by (simp add: three_courses_def)
  have ids2: "course_id (three_courses ! 1) = course_id edited_course"
    "course_id (three_courses ! 0) \<noteq> course_id edited_course"
    by (simp_all add: three_courses_def edited_course_def)
  show ?thesis
    using update_replaces_by_id [of pe_course three_courses]
      update_replaces_by_id [of edited_course three_courses] ids notin len ids2
    by simp
qed

end
